theory Spec2Isabelle
  imports Complex_Main
begin

section \<open>The JavaScript platform, as far as the program uses it\<close>

subsection \<open>Dates\<close>

text \<open>
  A JavaScript \<^verbatim>\<open>Date\<close> holds a time value: the milliseconds since the epoch (UTC), or
  NaN for an invalid date. The accessors below follow the formulas of the ECMAScript
  specification (Day, HourFromTime, MinFromTime, WeekDay, YearFromTime, MonthFromTime,
  DateFromTime on the local time \<open>t + LocalTZA t\<close>). The offset of the local time zone
  is a parameter \<open>tz\<close>: it maps a UTC time value to the offset in milliseconds.
\<close>

datatype Date = TimeValue int | InvalidDate

definition msPerDay :: int where
  "msPerDay = 86400000"

definition LocalTime :: "(int \<Rightarrow> int) \<Rightarrow> int \<Rightarrow> int" where
  "LocalTime tz t = t + tz t"

definition Day :: "int \<Rightarrow> int" where
  "Day t = t div msPerDay"

definition HourFromTime :: "int \<Rightarrow> int" where
  "HourFromTime t = (t div 3600000) mod 24"

definition MinFromTime :: "int \<Rightarrow> int" where
  "MinFromTime t = (t div 60000) mod 60"

definition WeekDay :: "int \<Rightarrow> int" where
  "WeekDay t = (Day t + 4) mod 7"

text \<open>
  The civil date (year, month 0..11, day of the month 1..31) of a day number in the
  proleptic Gregorian calendar, by era (400 years), year of era and day of year
  counted from March 1.
\<close>

definition civil :: "int \<Rightarrow> int \<times> int \<times> int" where
  "civil dayNumber =
     (let z = dayNumber + 719468;
          era = z div 146097;
          doe = z mod 146097;
          yoe = (doe - doe div 1460 + doe div 36524 - doe div 146096) div 365;
          doy = doe - (365 * yoe + yoe div 4 - yoe div 100);
          mp = (5 * doy + 2) div 153;
          d = doy - (153 * mp + 2) div 5 + 1;
          m = (if mp < 10 then mp + 3 else mp - 9);
          y = yoe + era * 400 + (if m \<le> 2 then 1 else 0)
      in (y, m - 1, d))"

definition YearFromTime :: "int \<Rightarrow> int" where
  "YearFromTime t = fst (civil (Day t))"

definition MonthFromTime :: "int \<Rightarrow> int" where
  "MonthFromTime t = fst (snd (civil (Day t)))"

definition DateFromTime :: "int \<Rightarrow> int" where
  "DateFromTime t = snd (snd (civil (Day t)))"

definition getTime :: "Date \<Rightarrow> int option" where
  \<comment> \<open>\<open>None\<close> stands for NaN\<close>
  "getTime d = (case d of TimeValue t \<Rightarrow> Some t | InvalidDate \<Rightarrow> None)"

definition getHours :: "(int \<Rightarrow> int) \<Rightarrow> Date \<Rightarrow> int option" where
  "getHours tz d = (case d of TimeValue t \<Rightarrow> Some (HourFromTime (LocalTime tz t)) | InvalidDate \<Rightarrow> None)"

definition getMinutes :: "(int \<Rightarrow> int) \<Rightarrow> Date \<Rightarrow> int option" where
  "getMinutes tz d = (case d of TimeValue t \<Rightarrow> Some (MinFromTime (LocalTime tz t)) | InvalidDate \<Rightarrow> None)"

subsection \<open>Numbers to strings\<close>

definition digit_char :: "int \<Rightarrow> char" where
  "digit_char n = ''0123456789'' ! nat (n mod 10)"

function digits_of :: "int \<Rightarrow> string" where
  "digits_of n =
     (if n < 10 then [digit_char n] else digits_of (n div 10) @ [digit_char n])"
  by pat_completeness auto
termination
  by (relation "measure nat") auto

definition toString :: "int \<Rightarrow> string" where
  \<comment> \<open>\<^verbatim>\<open>Number.prototype.toString\<close> on an integer\<close>
  "toString i = (if i < 0 then CHR ''-'' # digits_of (- i) else digits_of i)"

definition padStart :: "nat \<Rightarrow> string \<Rightarrow> string" where
  \<comment> \<open>padding with zeros on the left, as the date formats do\<close>
  "padStart n s = replicate (n - length s) CHR ''0'' @ s"

definition dayNames :: "string list" where
  "dayNames = [''Sun'', ''Mon'', ''Tue'', ''Wed'', ''Thu'', ''Fri'', ''Sat'']"

definition monthNames :: "string list" where
  "monthNames = [''Jan'', ''Feb'', ''Mar'', ''Apr'', ''May'', ''Jun'',
                 ''Jul'', ''Aug'', ''Sep'', ''Oct'', ''Nov'', ''Dec'']"

definition toDateString :: "(int \<Rightarrow> int) \<Rightarrow> Date \<Rightarrow> string" where
  \<comment> \<open>weekday, month, day of the month and year of the local time, e.g. \<^verbatim>\<open>Thu Jan 01 1970\<close>\<close>
  "toDateString tz d =
     (case d of
        InvalidDate \<Rightarrow> ''Invalid Date''
      | TimeValue t \<Rightarrow>
          (let lt = LocalTime tz t; y = YearFromTime lt
           in dayNames ! nat (WeekDay lt) @ '' '' @ monthNames ! nat (MonthFromTime lt) @ '' '' @
              padStart 2 (toString (DateFromTime lt)) @ '' '' @
              (if y < 0 then ''-'' else '''') @ padStart 4 (toString \<bar>y\<bar>)))"

section \<open>Strings and numbers read from text\<close>

text \<open>
  A JavaScript string is a sequence of UTF-16 code units. Where the program only compares
  and joins texts, a text is a \<open>string\<close> here. Where it looks at the characters (the
  working hours, which \<^verbatim>\<open>parseInt\<close> reads), a text is the list of its code units, so
  that every character a JavaScript string can hold is there; \<open>code_units\<close> gives the
  code units of a text of ASCII characters.
\<close>

type_synonym utf16 = "int list"

definition code_units :: "string \<Rightarrow> utf16" where
  "code_units s = map of_char s"

text \<open>
  \<^verbatim>\<open>String.prototype.split\<close> with a separator of one character: the pieces between the
  separators, at least one piece. An index beyond the array reads \<^verbatim>\<open>undefined\<close>.
\<close>

fun str_split :: "'a \<Rightarrow> 'a list \<Rightarrow> 'a list list" where
  "str_split sep [] = [[]]"
| "str_split sep (c # cs) =
     (if c = sep then [] # str_split sep cs
      else (case str_split sep cs of
              [] \<Rightarrow> [[c]]
            | piece # pieces \<Rightarrow> (c # piece) # pieces))"

definition at_index :: "'a list \<Rightarrow> nat \<Rightarrow> 'a option" where
  "at_index xs i = (if i < length xs then Some (xs ! i) else None)"

text \<open>
  The white space that \<^verbatim>\<open>parseInt\<close> skips (StrWhiteSpaceChar of ECMAScript): TAB, VT, FF,
  the byte order mark U+FEFF, the space separators of Unicode (U+0020, U+00A0, U+1680,
  U+2000 to U+200A, U+202F, U+205F, U+3000) and the line terminators LF, CR, U+2028,
  U+2029.
\<close>

definition isWhiteSpace :: "int \<Rightarrow> bool" where
  "isWhiteSpace c =
     (c \<in> set [0x09, 0x0B, 0x0C, 0xFEFF, 0x20, 0xA0, 0x1680, 0x202F, 0x205F, 0x3000,
                0x0A, 0x0D, 0x2028, 0x2029]
      \<or> (0x2000 \<le> c \<and> c \<le> 0x200A))"

definition radixDigit :: "int \<Rightarrow> int \<Rightarrow> int option" where
  \<comment> \<open>the value of a digit or letter, when it is a digit of the radix\<close>
  "radixDigit R n =
     (let v = (if 48 \<le> n \<and> n \<le> 57 then n - 48
               else if 97 \<le> n \<and> n \<le> 122 then n - 87
               else if 65 \<le> n \<and> n \<le> 90 then n - 55
               else 36)
      in if v < R then Some v else None)"

text \<open>
  \<^verbatim>\<open>parseInt\<close> without a radix: leading white space and a sign are skipped, a prefix
  \<^verbatim>\<open>0x\<close> selects radix 16, the longest run of digits is read, and no digit at all gives
  NaN (\<open>None\<close>). Of \<^verbatim>\<open>undefined\<close> (the text \<^verbatim>\<open>undefined\<close>) it is NaN. The result is
  the integer that the digits denote: the number that the program computes with is the
  double nearest to it, which is the integer itself up to a magnitude of \<open>2^53\<close>.
\<close>

definition parseInt_string :: "utf16 \<Rightarrow> int option" where
  "parseInt_string str =
     (let S = dropWhile isWhiteSpace str;
          sign = (if take 1 S = code_units ''-'' then - 1 else 1);
          S1 = (if take 1 S = code_units ''-'' \<or> take 1 S = code_units ''+'' then drop 1 S else S);
          hex = (take 2 S1 = code_units ''0x'' \<or> take 2 S1 = code_units ''0X'');
          R = (if hex then 16 else 10);
          S2 = (if hex then drop 2 S1 else S1);
          Z = takeWhile (\<lambda>c. radixDigit R c \<noteq> None) S2
      in if Z = [] then None
         else Some (sign * foldl (\<lambda>acc c. acc * R + the (radixDigit R c)) 0 Z))"

definition parseInt :: "utf16 option \<Rightarrow> int option" where
  "parseInt v = (case v of None \<Rightarrow> None | Some str \<Rightarrow> parseInt_string str)"

text \<open>Arithmetic and comparison of numbers that may be NaN: every comparison with NaN is false.\<close>

definition num_add :: "int option \<Rightarrow> int option \<Rightarrow> int option" where
  "num_add a b = (case (a, b) of (Some x, Some y) \<Rightarrow> Some (x + y) | _ \<Rightarrow> None)"

definition num_mul :: "int option \<Rightarrow> int option \<Rightarrow> int option" where
  "num_mul a b = (case (a, b) of (Some x, Some y) \<Rightarrow> Some (x * y) | _ \<Rightarrow> None)"

definition num_ge :: "int option \<Rightarrow> int option \<Rightarrow> bool" where
  "num_ge a b = (case (a, b) of (Some x, Some y) \<Rightarrow> x \<ge> y | _ \<Rightarrow> False)"

definition num_le :: "int option \<Rightarrow> int option \<Rightarrow> bool" where
  "num_le a b = (case (a, b) of (Some x, Some y) \<Rightarrow> x \<le> y | _ \<Rightarrow> False)"

definition toFixed2 :: "real \<Rightarrow> real" where
  \<comment> \<open>\<^verbatim>\<open>parseFloat(x.toFixed(2))\<close>: the nearest multiple of 1/100, a tie going away from zero\<close>
  "toFixed2 x =
     (if x < 0 then - (of_int \<lfloor>- x * 100 + 1 / 2\<rfloor> / 100)
      else of_int \<lfloor>x * 100 + 1 / 2\<rfloor> / 100)"

section \<open>The data model\<close>

text \<open>
  The interfaces \<^verbatim>\<open>Student\<close>, \<^verbatim>\<open>AttendanceRecord\<close> and \<^verbatim>\<open>AttendanceSettings\<close> of the
  program, field by field; an optional field is an \<open>option\<close>. An attendance record
  without its id is what the camera view proposes
  (\<^verbatim>\<open>Omit<AttendanceRecord, 'id'>\<close>), a student without id, registration time and
  active flag is what the registry submits
  (\<^verbatim>\<open>Omit<Student, 'id' | 'registeredAt' | 'isActive'>\<close>). The two texts of the working
  hours are lists of code units.
\<close>

record StudentData =
  s_name :: string
  s_email :: string
  s_studentId :: "string option"
  s_department :: "string option"
  s_year :: "string option"
  s_photo :: "string option"

record Student = StudentData +
  s_id :: string
  s_registeredAt :: Date
  s_isActive :: bool

record ProposedRecord =
  r_studentId :: string
  r_studentName :: string
  r_timestamp :: Date
  r_confidence :: real
  r_photo :: "string option"
  r_location :: "string option"
  r_deviceInfo :: "string option"

record AttendanceRecord = ProposedRecord +
  r_id :: string

record WorkingHours =
  wh_start :: utf16
  wh_end :: utf16

record AttendanceSettings =
  autoMarkingEnabled :: bool
  confidenceThreshold :: real
  allowMultipleMarking :: bool
  workingHours :: WorkingHours
  notifications_email :: bool
  notifications_browser :: bool
  backup_autoBackup :: bool
  backup_frequency :: string

section \<open>The outside world\<close>

text \<open>
  The program reads the system clock (\<^verbatim>\<open>Date.now()\<close>, \<^verbatim>\<open>new Date()\<close>) and the random
  generator (\<^verbatim>\<open>Math.random()\<close>). Both are modelled as sequences fixed in advance together
  with the number of values read so far, so that a function that reads one returns the
  world with the counter advanced. \<open>tza\<close> is the offset of the local time zone.
  Numbers that the program computes with fractions are exact reals here: the
  rounding of IEEE doubles is not modelled.

  The storage service is outside the program as well. The world keeps the requests sent
  so far, and holds the reply to each request by its position: the \<^verbatim>\<open>error\<close> of the
  reply (\<open>None\<close> when the request was served) and the rows of a reply to a select
  (\<open>None\<close> for \<^verbatim>\<open>null\<close>). The rows are given as the records that the hook makes of
  them: fields renamed, \<^verbatim>\<open>new Date\<close> of a timestamp, \<^verbatim>\<open>parseFloat\<close> of the confidence.
\<close>

text \<open>
  What a rejected request or a failing call throws: an \<^verbatim>\<open>Error\<close> object with its
  message, or some other value.
\<close>

datatype thrown = ErrorObject string | OtherValue

definition errorMessage :: "thrown \<Rightarrow> string \<Rightarrow> string" where
  \<comment> \<open>\<^verbatim>\<open>err instanceof Error ? err.message : fallback\<close>\<close>
  "errorMessage err fallback = (case err of ErrorObject m \<Rightarrow> m | OtherValue \<Rightarrow> fallback)"

datatype request =
    SelectStudents
  | SelectRecords
  | InsertStudent StudentData
  | DeleteStudent string
  | UpdateStudentActive string bool
  | InsertRecord ProposedRecord

record world =
  clock :: "nat \<Rightarrow> int"
  clock_reads :: nat
  random :: "nat \<Rightarrow> real"
  random_draws :: nat
  tza :: "int \<Rightarrow> int"
  requests :: "request list"
  reply_error :: "nat \<Rightarrow> thrown option"
  reply_students :: "nat \<Rightarrow> Student list option"
  reply_records :: "nat \<Rightarrow> AttendanceRecord list option"

definition Date_now :: "world \<Rightarrow> int \<times> world" where
  "Date_now w = (clock w (clock_reads w), w\<lparr>clock_reads := Suc (clock_reads w)\<rparr>)"

definition new_Date :: "world \<Rightarrow> Date \<times> world" where
  "new_Date w = (TimeValue (clock w (clock_reads w)), w\<lparr>clock_reads := Suc (clock_reads w)\<rparr>)"

definition Math_random :: "world \<Rightarrow> real \<times> world" where
  "Math_random w = (random w (random_draws w), w\<lparr>random_draws := Suc (random_draws w)\<rparr>)"

definition supabase :: "request \<Rightarrow> world \<Rightarrow> nat \<times> world" where
  \<comment> \<open>sends a request; the result is its position, where the reply is read\<close>
  "supabase req w = (length (requests w), w\<lparr>requests := requests w @ [req]\<rparr>)"

section \<open>Notifications (hooks/useNotifications.ts)\<close>

text \<open>
  The interface \<^verbatim>\<open>NotificationMessage\<close> of the program, field by field, with its four
  kinds.
\<close>

datatype NotificationType = Success | Warning | Error | Info

record NotificationMessage =
  n_id :: string
  n_type :: NotificationType
  n_title :: string
  n_message :: string
  n_timestamp :: Date
  n_read :: bool

text \<open>The argument of \<^verbatim>\<open>addNotification\<close>: a message without id, timestamp and read flag.\<close>

record NotificationInput =
  i_type :: NotificationType
  i_title :: string
  i_message :: string

definition newNotification :: "NotificationInput \<Rightarrow> world \<Rightarrow> NotificationMessage \<times> world" where
  "newNotification notification w =
     (let (ms, w1) = Date_now w;
          (d, w2) = new_Date w1
      in (\<lparr>n_id = toString ms, n_type = i_type notification, n_title = i_title notification,
           n_message = i_message notification, n_timestamp = d, n_read = False\<rparr>, w2))"

text \<open>
  \<^verbatim>\<open>setNotifications(prev => [newNotification, ...prev].slice(0, 50))\<close>. The state is the
  list held by the hook in a state cell (\<^verbatim>\<open>useLocalStorage\<close>), and an update is a function
  of the previous list; the browser pop-up that follows has no effect on it.
\<close>

definition addNotification ::
  "NotificationInput \<Rightarrow> NotificationMessage list \<Rightarrow> world \<Rightarrow> NotificationMessage list \<times> world" where
  "addNotification notification prev w =
     (let (n, w') = newNotification notification w
      in (take 50 ([n] @ prev), w'))"

definition markAsRead :: "string \<Rightarrow> NotificationMessage list \<Rightarrow> NotificationMessage list" where
  "markAsRead i prev = map (\<lambda>notification. if n_id notification = i then notification\<lparr>n_read := True\<rparr> else notification) prev"

definition clearAll :: "NotificationMessage list \<Rightarrow> NotificationMessage list" where
  "clearAll prev = []"

section \<open>The matcher (utils/faceRecognition.ts)\<close>

record MatchResult =
  m_student :: Student
  m_confidence :: real

definition has_photo :: "Student \<Rightarrow> bool" where
  \<comment> \<open>\<^verbatim>\<open>s => s.photo\<close>: a text that is present and not empty\<close>
  "has_photo s = (case s_photo s of None \<Rightarrow> False | Some p \<Rightarrow> p \<noteq> [])"

text \<open>
  The confidence of one candidate, from the clock reading and the random draw of its
  iteration. A registration date that is invalid makes every number computed from it
  NaN (\<open>None\<close>).
\<close>

definition simulatedConfidence :: "int \<Rightarrow> real \<Rightarrow> Student \<Rightarrow> real option" where
  "simulatedConfidence now r student =
     (case getTime (s_registeredAt student) of
        None \<Rightarrow> None
      | Some registered \<Rightarrow>
          (let timeSinceRegistration = now - registered;
               baseConfidence = 6 / 10 + r * (35 / 100);
               timeBonus = max 0 (1 / 10 - of_int timeSinceRegistration / of_int (1000 * 60 * 60 * 24 * 30))
           in Some (min (98 / 100) (baseConfidence + timeBonus))))"

definition better :: "real \<Rightarrow> real \<Rightarrow> MatchResult option \<Rightarrow> bool" where
  \<comment> \<open>\<^verbatim>\<open>confidence >= confidenceThreshold && (!bestMatch || confidence > bestMatch.confidence)\<close>\<close>
  "better threshold confidence bestMatch =
     (confidence \<ge> threshold \<and>
      (case bestMatch of None \<Rightarrow> True | Some b \<Rightarrow> confidence > m_confidence b))"

fun matchLoop ::
  "real \<Rightarrow> Student list \<Rightarrow> MatchResult option \<Rightarrow> world \<Rightarrow> MatchResult option \<times> world" where
  "matchLoop threshold [] bestMatch w = (bestMatch, w)"
| "matchLoop threshold (student # rest) bestMatch w =
     (let (now, w1) = Date_now w;
          (r, w2) = Math_random w1;
          bestMatch' =
            (case simulatedConfidence now r student of
               None \<Rightarrow> bestMatch
             | Some confidence \<Rightarrow>
                 if better threshold confidence bestMatch
                 then Some \<lparr>m_student = student, m_confidence = toFixed2 confidence\<rparr>
                 else bestMatch)
      in matchLoop threshold rest bestMatch' w2)"

text \<open>
  The result of the matcher, the delay of the timer it waited for (in milliseconds,
  \<open>None\<close> when it returned without waiting) and the world afterwards. The image is not
  looked at. The one caller passes the threshold, so the default of the parameter
  does not occur.
\<close>

definition simulateFaceRecognition ::
  "string \<Rightarrow> Student list \<Rightarrow> real \<Rightarrow> world \<Rightarrow> MatchResult option \<times> real option \<times> world" where
  "simulateFaceRecognition imageData students threshold w =
     (let studentsWithPhotos = filter has_photo students
      in if length studentsWithPhotos = 0 then (None, None, w)
         else
           (let (d, w1) = Math_random w;
                delay = 1000 + d * 2000;
                (bestMatch, w2) = matchLoop threshold studentsWithPhotos None w1;
                (miss, w3) = Math_random w2
            in if miss < 15 / 100 then (None, Some delay, w3)
               else (bestMatch, Some delay, w3)))"

section \<open>Storage (hooks/useDatabase.ts)\<close>

text \<open>The state of the hook: the collections held locally, the loading flag, the error text.\<close>

record db_state =
  students :: "Student list"
  records :: "AttendanceRecord list"
  loading :: bool
  db_error :: "string option"

definition fetchStudents :: "db_state \<Rightarrow> world \<Rightarrow> db_state \<times> world" where
  "fetchStudents st w =
     (let (k, w1) = supabase SelectStudents w
      in case reply_error w1 k of
           Some err \<Rightarrow> (st\<lparr>db_error := Some (errorMessage err ''Failed to fetch students'')\<rparr>, w1)
         | None \<Rightarrow>
             (st\<lparr>students := (case reply_students w1 k of None \<Rightarrow> [] | Some rows \<Rightarrow> rows)\<rparr>, w1))"

definition fetchRecords :: "db_state \<Rightarrow> world \<Rightarrow> db_state \<times> world" where
  "fetchRecords st w =
     (let (k, w1) = supabase SelectRecords w
      in case reply_error w1 k of
           Some err \<Rightarrow> (st\<lparr>db_error := Some (errorMessage err ''Failed to fetch records'')\<rparr>, w1)
         | None \<Rightarrow>
             (st\<lparr>records := (case reply_records w1 k of None \<Rightarrow> [] | Some rows \<Rightarrow> rows)\<rparr>, w1))"

text \<open>
  The four writes. Each returns \<open>Inl\<close> of what it throws or \<open>Inr ()\<close>; the row that an
  insert returns is used by no caller and is left out.
\<close>

definition addStudent :: "StudentData \<Rightarrow> db_state \<Rightarrow> world \<Rightarrow> (thrown + unit) \<times> db_state \<times> world" where
  "addStudent studentData st w =
     (let (k, w1) = supabase (InsertStudent studentData) w
      in case reply_error w1 k of
           Some err \<Rightarrow>
             (Inl err, st\<lparr>db_error := Some (errorMessage err ''Failed to add student'')\<rparr>, w1)
         | None \<Rightarrow>
             (let (st1, w2) = fetchStudents st w1
              in (Inr (), st1, w2)))"

definition removeStudent :: "string \<Rightarrow> db_state \<Rightarrow> world \<Rightarrow> (thrown + unit) \<times> db_state \<times> world" where
  "removeStudent ident st w =
     (let (k, w1) = supabase (DeleteStudent ident) w
      in case reply_error w1 k of
           Some err \<Rightarrow>
             (Inl err, st\<lparr>db_error := Some (errorMessage err ''Failed to remove student'')\<rparr>, w1)
         | None \<Rightarrow>
             (let (st1, w2) = fetchStudents st w1;
                  (st2, w3) = fetchRecords st1 w2
              in (Inr (), st2, w3)))"

definition toggleStudentStatus :: "string \<Rightarrow> db_state \<Rightarrow> world \<Rightarrow> (thrown + unit) \<times> db_state \<times> world" where
  "toggleStudentStatus ident st w =
     (case find (\<lambda>s. s_id s = ident) (students st) of
        None \<Rightarrow> (Inr (), st, w)
      | Some student \<Rightarrow>
          (let (k, w1) = supabase (UpdateStudentActive ident (\<not> s_isActive student)) w
           in case reply_error w1 k of
                Some err \<Rightarrow>
                  (Inl err, st\<lparr>db_error := Some (errorMessage err ''Failed to update student status'')\<rparr>, w1)
              | None \<Rightarrow>
                  (let (st1, w2) = fetchStudents st w1
                   in (Inr (), st1, w2))))"

text \<open>
  \<^verbatim>\<open>record.timestamp.toISOString()\<close> throws a RangeError on an invalid date, inside the
  \<^verbatim>\<open>try\<close> and before the request is sent.
\<close>

definition addAttendanceRecord :: "ProposedRecord \<Rightarrow> db_state \<Rightarrow> world \<Rightarrow> (thrown + unit) \<times> db_state \<times> world" where
  "addAttendanceRecord record st w =
     (case getTime (r_timestamp record) of
        None \<Rightarrow>
          (Inl (ErrorObject ''Invalid time value''), st\<lparr>db_error := Some ''Invalid time value''\<rparr>, w)
      | Some t \<Rightarrow>
          (let (k, w1) = supabase (InsertRecord record) w
           in case reply_error w1 k of
                Some err \<Rightarrow>
                  (Inl err, st\<lparr>db_error := Some (errorMessage err ''Failed to add attendance record'')\<rparr>, w1)
              | None \<Rightarrow>
                  (let (st1, w2) = fetchRecords st w1
                   in (Inr (), st1, w2))))"

definition loadData :: "db_state \<Rightarrow> world \<Rightarrow> db_state \<times> world" where
  "loadData st w =
     (let (st1, w1) = fetchStudents (st\<lparr>loading := True\<rparr>) w;
          (st2, w2) = fetchRecords st1 w1
      in (st2\<lparr>loading := False\<rparr>, w2))"

section \<open>The application (App.tsx)\<close>

record app_state =
  db :: db_state
  notifications :: "NotificationMessage list"
  settings :: AttendanceSettings

text \<open>The settings the application starts with.\<close>

definition defaultSettings :: AttendanceSettings where
  "defaultSettings =
     \<lparr>autoMarkingEnabled = True, confidenceThreshold = 75 / 100, allowMultipleMarking = False,
      workingHours = \<lparr>wh_start = code_units ''09:00'', wh_end = code_units ''17:00''\<rparr>,
      notifications_email = False, notifications_browser = True,
      backup_autoBackup = True, backup_frequency = ''daily''\<rparr>"

definition notify :: "NotificationType \<Rightarrow> string \<Rightarrow> string \<Rightarrow> app_state \<Rightarrow> world \<Rightarrow> app_state \<times> world" where
  \<comment> \<open>\<^verbatim>\<open>addNotification({type, title, message})\<close> on the list of the application\<close>
  "notify ty title msg app w =
     (let (ns, w1) = addNotification \<lparr>i_type = ty, i_title = title, i_message = msg\<rparr> (notifications app) w
      in (app\<lparr>notifications := ns\<rparr>, w1))"

definition handleAddStudent :: "StudentData \<Rightarrow> app_state \<Rightarrow> world \<Rightarrow> app_state \<times> world" where
  "handleAddStudent studentData app w =
     (let (res, st1, w1) = addStudent studentData (db app) w
      in case res of
           Inr u \<Rightarrow>
             notify Success ''Student Added'' (s_name studentData @ '' has been successfully registered.'')
               (app\<lparr>db := st1\<rparr>) w1
         | Inl err \<Rightarrow>
             notify Error ''Error'' ''Failed to add student. Please try again.'' (app\<lparr>db := st1\<rparr>) w1)"

definition handleRemoveStudent :: "string \<Rightarrow> app_state \<Rightarrow> world \<Rightarrow> app_state \<times> world" where
  "handleRemoveStudent ident app w =
     (let student = find (\<lambda>s. s_id s = ident) (students (db app));
          (res, st1, w1) = removeStudent ident (db app) w
      in case res of
           Inr u \<Rightarrow>
             (case student of
                Some s \<Rightarrow>
                  notify Info ''Student Removed'' (s_name s @ '' has been removed from the system.'')
                    (app\<lparr>db := st1\<rparr>) w1
              | None \<Rightarrow> (app\<lparr>db := st1\<rparr>, w1))
         | Inl err \<Rightarrow>
             notify Error ''Error'' ''Failed to remove student. Please try again.'' (app\<lparr>db := st1\<rparr>) w1)"

definition handleToggleStudentStatus :: "string \<Rightarrow> app_state \<Rightarrow> world \<Rightarrow> app_state \<times> world" where
  "handleToggleStudentStatus ident app w =
     (let (res, st1, w1) = toggleStudentStatus ident (db app) w
      in case res of
           Inr u \<Rightarrow> (app\<lparr>db := st1\<rparr>, w1)
         | Inl err \<Rightarrow>
             notify Error ''Error'' ''Failed to update student status. Please try again.'' (app\<lparr>db := st1\<rparr>) w1)"

definition minutesOf :: "utf16 \<Rightarrow> int option" where
  \<comment> \<open>\<^verbatim>\<open>parseInt(s.split(':')[0]) * 60 + parseInt(s.split(':')[1])\<close>; the colon is the code unit 58\<close>
  "minutesOf s =
     num_add (num_mul (parseInt (at_index (str_split 58 s) 0)) (Some 60))
             (parseInt (at_index (str_split 58 s) 1))"

definition currentTimeOf :: "(int \<Rightarrow> int) \<Rightarrow> Date \<Rightarrow> int option" where
  \<comment> \<open>\<^verbatim>\<open>now.getHours() * 60 + now.getMinutes()\<close>\<close>
  "currentTimeOf tz now = num_add (num_mul (getHours tz now) (Some 60)) (getMinutes tz now)"

definition hasAttended :: "(int \<Rightarrow> int) \<Rightarrow> string \<Rightarrow> string \<Rightarrow> AttendanceRecord list \<Rightarrow> bool" where
  \<comment> \<open>\<^verbatim>\<open>records.some(r => r.studentId === id && r.timestamp && r.timestamp.toDateString() === today)\<close>;
      a \<^verbatim>\<open>Date\<close> is an object, so the test of \<^verbatim>\<open>r.timestamp\<close> alone is true\<close>
  "hasAttended tz ident today rs =
     list_ex (\<lambda>r. r_studentId r = ident \<and> toDateString tz (r_timestamp r) = today) rs"

definition handleAttendanceMarked :: "ProposedRecord \<Rightarrow> app_state \<Rightarrow> world \<Rightarrow> app_state \<times> world" where
  "handleAttendanceMarked record app w =
     (let (d, w1) = new_Date w;
          today = toDateString (tza w) d;
          hasAttendedToday = hasAttended (tza w) (r_studentId record) today (records (db app))
      in if \<not> hasAttendedToday \<or> allowMultipleMarking (settings app) then
           (let (now, w2) = new_Date w1;
                currentTime = currentTimeOf (tza w) now;
                startTime = minutesOf (wh_start (workingHours (settings app)));
                endTime = minutesOf (wh_end (workingHours (settings app)));
                (res, st1, w3) = addAttendanceRecord record (db app) w2
            in case res of
                 Inr u \<Rightarrow>
                   if num_ge currentTime startTime \<and> num_le currentTime endTime then
                     notify Success ''Attendance Marked''
                       (r_studentName record @ '' attendance recorded successfully.'') (app\<lparr>db := st1\<rparr>) w3
                   else
                     notify Warning ''Outside Working Hours''
                       (''Attendance marked for '' @ r_studentName record @ '' outside working hours.'')
                       (app\<lparr>db := st1\<rparr>) w3
               | Inl err \<Rightarrow>
                   notify Error ''Error'' ''Failed to mark attendance. Please try again.'' (app\<lparr>db := st1\<rparr>) w3)
         else
           notify Warning ''Already Marked''
             (r_studentName record @ '' has already marked attendance today.'') app w1)"

section \<open>The camera view (components/CameraView.tsx)\<close>

record camera_state =
  isActive :: bool
  isProcessing :: bool
  lastRecognition :: "string option"
  cameraThreshold :: real

text \<open>
  One run of \<^verbatim>\<open>handleRecognition\<close>, from the call to the last assignment. The frame is
  what \<^verbatim>\<open>captureFrame()\<close> returns (\<open>None\<close> for \<^verbatim>\<open>null\<close>), \<open>userAgent\<close> is
  \<^verbatim>\<open>navigator.userAgent\<close>. The first component is the record handed to
  \<^verbatim>\<open>onAttendanceMarked\<close>, if any.
\<close>

definition handleRecognition ::
  "Student list \<Rightarrow> string option \<Rightarrow> string \<Rightarrow> camera_state \<Rightarrow> world \<Rightarrow> ProposedRecord option \<times> camera_state \<times> world" where
  "handleRecognition studs frame userAgent cs w =
     (if \<not> isActive cs \<or> isProcessing cs then (None, cs, w)
      else
        (case frame of
           None \<Rightarrow> (None, cs\<lparr>isProcessing := False\<rparr>, w)
         | Some frameData \<Rightarrow>
             if frameData = [] then (None, cs\<lparr>isProcessing := False\<rparr>, w)
             else
               (let (result, delay, w1) = simulateFaceRecognition frameData studs (cameraThreshold cs) w
                in case result of
                     None \<Rightarrow> (None, cs\<lparr>isProcessing := False\<rparr>, w1)
                   | Some m \<Rightarrow>
                       if m_confidence m \<ge> cameraThreshold cs then
                         (let (ts, w2) = new_Date w1;
                              record = \<lparr>r_studentId = s_id (m_student m),
                                        r_studentName = s_name (m_student m),
                                        r_timestamp = ts,
                                        r_confidence = m_confidence m,
                                        r_photo = Some frameData,
                                        r_location = Some ''Main Campus'',
                                        r_deviceInfo = at_index (str_split CHR '' '' userAgent) 0\<rparr>
                          in (Some record,
                              cs\<lparr>isProcessing := False, lastRecognition := Some (s_name (m_student m))\<rparr>, w2))
                       else (None, cs\<lparr>isProcessing := False\<rparr>, w1))))"

text \<open>
  The application renders the camera view with its active students and with
  \<^verbatim>\<open>handleAttendanceMarked\<close> as \<^verbatim>\<open>onAttendanceMarked\<close>: one recognition followed by the
  marking of what it proposes.
\<close>

definition recognizeAndMark ::
  "string option \<Rightarrow> string \<Rightarrow> camera_state \<Rightarrow> app_state \<Rightarrow> world \<Rightarrow> camera_state \<times> app_state \<times> world" where
  "recognizeAndMark frame userAgent cs app w =
     (let (proposed, cs1, w1) =
            handleRecognition (filter s_isActive (students (db app))) frame userAgent cs w
      in case proposed of
           None \<Rightarrow> (cs1, app, w1)
         | Some record \<Rightarrow>
             (let (app1, w2) = handleAttendanceMarked record app w1
              in (cs1, app1, w2)))"

section \<open>Notions used in the statements\<close>

text \<open>
  The simulated confidence of the candidate at position \<open>i\<close> of a loop that starts in
  world \<open>w\<close>: iteration \<open>i\<close> takes the \<open>i\<close>-th clock reading and the \<open>i\<close>-th random
  draw from there. A candidate is a valid match when that confidence is a number and
  reaches the threshold.
\<close>

definition candidateConfidence :: "world \<Rightarrow> nat \<Rightarrow> Student \<Rightarrow> real option" where
  "candidateConfidence w i student =
     simulatedConfidence (clock w (clock_reads w + i)) (random w (random_draws w + i)) student"

definition valid_match :: "real \<Rightarrow> world \<Rightarrow> nat \<Rightarrow> Student \<Rightarrow> bool" where
  "valid_match threshold w i student =
     (case candidateConfidence w i student of None \<Rightarrow> False | Some c \<Rightarrow> c \<ge> threshold)"

text \<open>
  The day that \<^verbatim>\<open>handleAttendanceMarked\<close> takes for today comes from its first reading of
  the clock, the time of day it classifies from its second reading (minutes since local
  midnight). A time is within the working hours when it is a number between the two
  bounds that the settings give, both included. A text of the working hours is read
  exactly when each of the two numbers that \<^verbatim>\<open>parseInt\<close> reads from it, if it is a
  number, has a magnitude of at most \<open>2^46\<close>: then the numbers, the product with 60 and the
  sum are below \<open>2^53\<close>, and the doubles of the program are these integers. Two states of
  the storage hook hold the
  same collections when students and records agree. The rows of a reply are none when the
  reply holds \<^verbatim>\<open>null\<close>.
\<close>

definition today :: "world \<Rightarrow> string" where
  "today w = toDateString (tza w) (TimeValue (clock w (clock_reads w)))"

definition currentTime :: "world \<Rightarrow> int option" where
  "currentTime w = currentTimeOf (tza w) (TimeValue (clock w (Suc (clock_reads w))))"

definition within_hours :: "AttendanceSettings \<Rightarrow> int option \<Rightarrow> bool" where
  "within_hours s t =
     (num_ge t (minutesOf (wh_start (workingHours s))) \<and> num_le t (minutesOf (wh_end (workingHours s))))"



definition same_collections :: "db_state \<Rightarrow> db_state \<Rightarrow> bool" where
  "same_collections st st' = (students st' = students st \<and> records st' = records st)"

definition rows_of :: "'a list option \<Rightarrow> 'a list" where
  "rows_of reply = (case reply of None \<Rightarrow> [] | Some rows \<Rightarrow> rows)"

section \<open>Sample data\<close>

text \<open>
  Two registered students, a world whose clock stands at a given time (UTC as local time
  zone) and whose random draws are listed, with one half for every draw beyond the list;
  the storage serves every request and returns no rows.
\<close>

definition utc :: "int \<Rightarrow> int" where
  "utc t = 0"

definition asha :: Student where
  "asha = \<lparr>s_name = ''Asha'', s_email = ''asha@example.org'', s_studentId = Some ''S001'',
            s_department = Some ''Physics'', s_year = Some ''2'',
            s_photo = Some ''data:image/jpeg;base64,AAAA'',
            s_id = ''id-asha'', s_registeredAt = TimeValue 1790000000000, s_isActive = True\<rparr>"

definition ravi :: Student where
  "ravi = \<lparr>s_name = ''Ravi'', s_email = ''ravi@example.org'', s_studentId = None,
            s_department = None, s_year = None,
            s_photo = Some ''data:image/jpeg;base64,BBBB'',
            s_id = ''id-ravi'', s_registeredAt = TimeValue 1780000000000, s_isActive = True\<rparr>"

definition draws_of :: "real list \<Rightarrow> nat \<Rightarrow> real" where
  "draws_of xs k = (if k < length xs then xs ! k else 1 / 2)"

definition example_world :: "int \<Rightarrow> real list \<Rightarrow> world" where
  "example_world t0 xs =
     \<lparr>clock = (\<lambda>k. t0), clock_reads = 0, random = draws_of xs, random_draws = 0, tza = utc,
      requests = [], reply_error = (\<lambda>k. None), reply_students = (\<lambda>k. Some []),
      reply_records = (\<lambda>k. Some [])\<rparr>"

definition sample_input :: NotificationInput where
  "sample_input = \<lparr>i_type = Info, i_title = ''Student Removed'',
                    i_message = ''Ravi has been removed from the system.''\<rparr>"

definition sample_notification :: NotificationMessage where
  "sample_notification = \<lparr>n_id = ''1793600000000'', n_type = Success, n_title = ''Student Added'',
                           n_message = ''Asha has been successfully registered.'',
                           n_timestamp = TimeValue 1793600000000, n_read = True\<rparr>"

text \<open>
  A proposed record and a stored record of the first student at a given time, an
  application state over given stored records, an active camera that is not processing,
  a world whose storage rejects every request and one whose storage returns a record.
\<close>

definition proposal :: "int \<Rightarrow> ProposedRecord" where
  "proposal t =
     \<lparr>r_studentId = ''id-asha'', r_studentName = ''Asha'', r_timestamp = TimeValue t,
      r_confidence = 85 / 100, r_photo = Some ''frame'', r_location = Some ''Main Campus'',
      r_deviceInfo = Some ''Mozilla/5.0''\<rparr>"

definition stored :: "int \<Rightarrow> AttendanceRecord" where
  "stored t =
     \<lparr>r_studentId = ''id-asha'', r_studentName = ''Asha'', r_timestamp = TimeValue t,
      r_confidence = 85 / 100, r_photo = Some ''frame'', r_location = Some ''Main Campus'',
      r_deviceInfo = Some ''Mozilla/5.0'', r_id = ''rec-1''\<rparr>"

definition sample_db :: "AttendanceRecord list \<Rightarrow> db_state" where
  "sample_db rs = \<lparr>students = [asha, ravi], records = rs, loading = False, db_error = None\<rparr>"

definition sample_app :: "AttendanceRecord list \<Rightarrow> bool \<Rightarrow> app_state" where
  "sample_app rs multiple =
     \<lparr>db = sample_db rs, notifications = [],
      settings = defaultSettings\<lparr>allowMultipleMarking := multiple\<rparr>\<rparr>"


definition sample_camera :: "real \<Rightarrow> camera_state" where
  "sample_camera t = \<lparr>isActive = True, isProcessing = False, lastRecognition = None, cameraThreshold = t\<rparr>"

definition sample_agent :: string where
  "sample_agent = ''Mozilla/5.0 (X11; Linux x86_64)''"

definition failing_world :: world where
  "failing_world =
     (example_world 1793610000000 [])\<lparr>reply_error := (\<lambda>k. Some (ErrorObject ''Failed to fetch''))\<rparr>"

definition refetch_world :: world where
  "refetch_world =
     (example_world 1793610000000 [])\<lparr>reply_records := (\<lambda>k. Some [stored 1793610000000])\<rparr>"

section \<open>Properties of the notification list\<close>

lemma addNotification_eq:
  "addNotification notification prev w =
     (fst (newNotification notification w) # take 49 prev, snd (newNotification notification w))"
  by (simp add: addNotification_def split: prod.split)

lemma length_markAsRead: "length (markAsRead i prev) = length prev"
  by (simp add: markAsRead_def)

text \<open>
  C8. The notification list is newest first and never longer than 50: appending puts the
  new notification in front of the first 49 of the previous ones, marking as read keeps the
  length, clearing empties the list. Appending to a list of 50 gives exactly 50 entries:
  the new one followed by the previous ones without the last (the oldest).
\<close>

theorem notification_bound:
  "fst (addNotification notification prev w) = fst (newNotification notification w) # take 49 prev
   \<and> length (fst (addNotification notification prev w)) \<le> 50
   \<and> length (markAsRead i prev) = length prev
   \<and> clearAll prev = []
   \<and> (length prev = 50 \<longrightarrow>
        length (fst (addNotification notification prev w)) = 50
        \<and> fst (addNotification notification prev w) = fst (newNotification notification w) # butlast prev)"
proof -
  have "take 49 prev = butlast prev" if "length prev = 50"
    using that by (simp add: butlast_conv_take)
  then show ?thesis
    by (simp add: addNotification_eq length_markAsRead clearAll_def)
qed

theorem notification_bound_witness:
  "length (replicate 50 sample_notification) = 50
   \<and> length (fst (addNotification sample_input (replicate 50 sample_notification)
                (example_world 1793610000000 []))) = 50
   \<and> fst (addNotification sample_input (replicate 50 sample_notification)
          (example_world 1793610000000 []))
       = fst (newNotification sample_input (example_world 1793610000000 []))
           # replicate 49 sample_notification"
  using notification_bound [of sample_input "replicate 50 sample_notification"
      "example_world 1793610000000 []"]
  by simp

section \<open>Rounding to two decimals\<close>

lemma toFixed2_mono: "x \<le> y \<Longrightarrow> toFixed2 x \<le> toFixed2 y"
proof -
  assume xy: "x \<le> y"
  have pos: "toFixed2 z \<ge> 0" if "0 \<le> z" for z
    using that by (simp add: toFixed2_def)
  have neg: "toFixed2 z \<le> 0" if "z < 0" for z
    using that by (simp add: toFixed2_def)
  show ?thesis
  proof (cases "x < 0")
    case xneg: True
    show ?thesis
    proof (cases "y < 0")
      case True
      have "\<lfloor>- y * 100 + 1 / 2\<rfloor> \<le> \<lfloor>- x * 100 + 1 / 2\<rfloor>"
        using xy by (intro floor_mono) simp
      then have "(of_int \<lfloor>- y * 100 + 1 / 2\<rfloor> :: real) \<le> of_int \<lfloor>- x * 100 + 1 / 2\<rfloor>"
        by simp
      then show ?thesis using xneg True by (simp add: toFixed2_def)
    next
      case False
      then show ?thesis using neg [OF xneg] pos [of y] by simp
    qed
  next
    case False
    then have y0: "\<not> y < 0" using xy by simp
    have "\<lfloor>x * 100 + 1 / 2\<rfloor> \<le> \<lfloor>y * 100 + 1 / 2\<rfloor>"
      using xy by (intro floor_mono) simp
    then have "(of_int \<lfloor>x * 100 + 1 / 2\<rfloor> :: real) \<le> of_int \<lfloor>y * 100 + 1 / 2\<rfloor>"
      by simp
    then show ?thesis using False y0 by (simp add: toFixed2_def)
  qed
qed

lemma toFixed2_hundredth: "toFixed2 (of_int k / 100) = of_int k / 100"
proof (cases "k < 0")
  case True
  have "\<lfloor>(of_int (- k) :: real) + 1 / 2\<rfloor> = - k"
    by linarith
  then show ?thesis using True by (simp add: toFixed2_def)
next
  case False
  have "\<lfloor>(of_int k :: real) + 1 / 2\<rfloor> = k"
    by linarith
  then show ?thesis using False by (simp add: toFixed2_def)
qed

lemma toFixed2_is_hundredth: "\<exists>k::int. toFixed2 x = of_int k / 100"
proof (cases "x < 0")
  case True
  then have "toFixed2 x = of_int (- \<lfloor>- x * 100 + 1 / 2\<rfloor>) / 100"
    by (simp add: toFixed2_def)
  then show ?thesis by blast
next
  case False
  then have "toFixed2 x = of_int \<lfloor>x * 100 + 1 / 2\<rfloor> / 100"
    by (simp add: toFixed2_def)
  then show ?thesis by blast
qed

section \<open>The loop of the matcher\<close>

lemma simulatedConfidence_le: "simulatedConfidence now r s = Some c \<Longrightarrow> c \<le> 98 / 100"
  by (auto simp: simulatedConfidence_def Let_def split: option.splits)

lemma matchLoop_world:
  "snd (matchLoop threshold ss best w) =
     w\<lparr>clock_reads := clock_reads w + length ss, random_draws := random_draws w + length ss\<rparr>"
  by (induction ss arbitrary: best w) (simp_all add: Date_now_def Math_random_def Let_def split: prod.splits)

lemma candidateConfidence_step:
  "candidateConfidence (w\<lparr>clock_reads := Suc (clock_reads w), random_draws := Suc (random_draws w)\<rparr>) i s
     = candidateConfidence w (Suc i) s"
  by (simp add: candidateConfidence_def)

lemma valid_match_step:
  "valid_match t (w\<lparr>clock_reads := Suc (clock_reads w), random_draws := Suc (random_draws w)\<rparr>) i s
     = valid_match t w (Suc i) s"
  by (simp add: valid_match_def candidateConfidence_step)

lemma ex_less_Suc_shift: "(\<exists>i<Suc n. P i) \<longleftrightarrow> P 0 \<or> (\<exists>i<n. P (Suc i))"
  by (metis less_Suc_eq_0_disj)

lemma matchLoop_Cons:
  "matchLoop t (s # ss) best w =
     matchLoop t ss
       (case candidateConfidence w 0 s of
          None \<Rightarrow> best
        | Some c \<Rightarrow> if better t c best then Some \<lparr>m_student = s, m_confidence = toFixed2 c\<rparr> else best)
       (w\<lparr>clock_reads := Suc (clock_reads w), random_draws := Suc (random_draws w)\<rparr>)"
  by (simp add: Date_now_def Math_random_def candidateConfidence_def)

lemma matchLoop_found_iff:
  "fst (matchLoop t ss best w) \<noteq> None \<longleftrightarrow>
     best \<noteq> None \<or> (\<exists>i<length ss. valid_match t w i (ss ! i))"
proof (induction ss arbitrary: best w)
  case Nil
  then show ?case by simp
next
  case (Cons s ss)
  show ?case
    unfolding matchLoop_Cons Cons.IH length_Cons ex_less_Suc_shift valid_match_step
    by (auto simp: valid_match_def better_def split: option.splits)
qed

lemma matchLoop_Some:
  "fst (matchLoop t ss best w) = Some m \<Longrightarrow>
     best = Some m \<or>
     (\<exists>i<length ss. \<exists>c. ss ! i = m_student m \<and> candidateConfidence w i (ss ! i) = Some c
        \<and> t \<le> c \<and> m_confidence m = toFixed2 c)"
proof (induction ss arbitrary: best w)
  case Nil
  then show ?case by simp
next
  case (Cons s ss)
  let ?w = "w\<lparr>clock_reads := Suc (clock_reads w), random_draws := Suc (random_draws w)\<rparr>"
  let ?b = "case candidateConfidence w 0 s of
          None \<Rightarrow> best
        | Some c \<Rightarrow> if better t c best then Some \<lparr>m_student = s, m_confidence = toFixed2 c\<rparr> else best"
  from Cons.prems have "fst (matchLoop t ss ?b ?w) = Some m"
    by (simp only: matchLoop_Cons)
  from Cons.IH [OF this] consider
      (first) "?b = Some m"
    | (later) i c where "i < length ss" "ss ! i = m_student m"
        "candidateConfidence ?w i (ss ! i) = Some c" "t \<le> c" "m_confidence m = toFixed2 c"
    by blast
  then show ?case
  proof cases
    case first
    then show ?thesis
      by (cases "candidateConfidence w 0 s") (auto simp: better_def split: if_splits)
  next
    case later
    then have "Suc i < length (s # ss)" "(s # ss) ! Suc i = m_student m"
      "candidateConfidence w (Suc i) ((s # ss) ! Suc i) = Some c"
      by (simp_all add: candidateConfidence_step)
    with later(4,5) show ?thesis by blast
  qed
qed

lemma simulate_nonempty:
  "filter has_photo studs \<noteq> [] \<Longrightarrow>
   simulateFaceRecognition img studs t w =
     (if random w (random_draws w + length (filter has_photo studs) + 1) < 15 / 100 then None
      else fst (matchLoop t (filter has_photo studs) None (snd (Math_random w))),
      Some (1000 + random w (random_draws w) * 2000),
      w\<lparr>clock_reads := clock_reads w + length (filter has_photo studs),
        random_draws := random_draws w + length (filter has_photo studs) + 2\<rparr>)"
proof -
  assume ne: "filter has_photo studs \<noteq> []"
  obtain b w2 where loop: "matchLoop t (filter has_photo studs) None (snd (Math_random w)) = (b, w2)"
    by (cases "matchLoop t (filter has_photo studs) None (snd (Math_random w))")
  have w2: "w2 = (snd (Math_random w))\<lparr>clock_reads := clock_reads (snd (Math_random w)) + length (filter has_photo studs),
      random_draws := random_draws (snd (Math_random w)) + length (filter has_photo studs)\<rparr>"
    using matchLoop_world [of t "filter has_photo studs" None "snd (Math_random w)"] loop by simp
  show ?thesis
    using ne loop
    by (auto simp: simulateFaceRecognition_def Let_def Math_random_def w2 split: prod.splits)
qed

lemma simulate_empty:
  "filter has_photo studs = [] \<Longrightarrow> simulateFaceRecognition img studs t w = (None, None, w)"
  by (simp add: simulateFaceRecognition_def)

lemmas matcher_eval =
  simulate_nonempty matchLoop_Cons candidateConfidence_def simulatedConfidence_def valid_match_def
  example_world_def draws_of_def asha_def ravi_def has_photo_def better_def toFixed2_def
  getTime_def Math_random_def

lemma valid_match_mono: "valid_match t w i s \<Longrightarrow> t' \<le> t \<Longrightarrow> valid_match t' w i s"
  by (auto simp: valid_match_def split: option.splits)

section \<open>Properties of the matcher\<close>

text \<open>
  C3. The claim: the candidate returned is the valid match with the strictly highest
  simulated confidence, the first one among equals. The loop compares the confidence of
  a candidate with the confidence stored for the best match so far, and that one has
  been rounded to two decimals. At the input below both candidates are valid matches at
  threshold 0.75; the first has the simulated confidence 0.854, stored as 0.85, the
  second has 0.851, which is greater than 0.85: the second candidate is returned, although
  the first has the higher simulated confidence. When both have the simulated confidence
  0.854, the second is returned as well, not the first.
\<close>

theorem best_match_not_highest:
  "fst (simulateFaceRecognition ''frame'' [asha, ravi] (75 / 100)
         (example_world 1793610000000 [1 / 2, 127 / 175, 251 / 350, 1 / 2]))
     = Some \<lparr>m_student = ravi, m_confidence = 85 / 100\<rparr>
   \<and> candidateConfidence (snd (Math_random (example_world 1793610000000 [1 / 2, 127 / 175, 251 / 350, 1 / 2]))) 0 asha
       = Some (854 / 1000)
   \<and> candidateConfidence (snd (Math_random (example_world 1793610000000 [1 / 2, 127 / 175, 251 / 350, 1 / 2]))) 1 ravi
       = Some (851 / 1000)
   \<and> fst (simulateFaceRecognition ''frame'' [asha, ravi] (75 / 100)
         (example_world 1793610000000 [1 / 2, 127 / 175, 127 / 175, 1 / 2]))
     = Some \<lparr>m_student = ravi, m_confidence = 85 / 100\<rparr>
   \<and> candidateConfidence (snd (Math_random (example_world 1793610000000 [1 / 2, 127 / 175, 127 / 175, 1 / 2]))) 0 asha
       = Some (854 / 1000)
   \<and> candidateConfidence (snd (Math_random (example_world 1793610000000 [1 / 2, 127 / 175, 127 / 175, 1 / 2]))) 1 ravi
       = Some (854 / 1000)"
  by (simp add: matcher_eval del: matchLoop.simps(2))

text \<open>
  The claim C4 as stated fails: at threshold 0.754 a candidate of simulated confidence
  0.7545 is a valid match, and the confidence returned is 0.75, below the threshold.
\<close>

theorem bounded_confidence_counterexample:
  "fst (simulateFaceRecognition ''frame'' [asha] (754 / 1000)
         (example_world 1793610000000 [1 / 2, 309 / 700, 1 / 2]))
     = Some \<lparr>m_student = asha, m_confidence = 75 / 100\<rparr>
   \<and> m_confidence (the (fst (simulateFaceRecognition ''frame'' [asha] (754 / 1000)
         (example_world 1793610000000 [1 / 2, 309 / 700, 1 / 2])))) < 754 / 1000"
  by (simp add: matcher_eval del: matchLoop.simps(2))

text \<open>
  C4, amended. Every result of the matcher carries a confidence that is a multiple of
  1/100, at most 0.98 and at least the threshold rounded to two decimals; it is at least
  the threshold itself whenever the threshold is a multiple of 1/100.
\<close>

theorem bounded_confidence:
  assumes "fst (simulateFaceRecognition img studs t w) = Some m"
  shows "(\<exists>k::int. m_confidence m = of_int k / 100)
         \<and> toFixed2 t \<le> m_confidence m
         \<and> m_confidence m \<le> 98 / 100
         \<and> ((\<exists>k::int. t = of_int k / 100) \<longrightarrow> t \<le> m_confidence m)"
proof -
  let ?cands = "filter has_photo studs"
  have ne: "?cands \<noteq> []"
    using assms simulate_empty [of studs img t w] by (cases "?cands = []") auto
  from assms have "fst (matchLoop t ?cands None (snd (Math_random w))) = Some m"
    by (simp add: simulate_nonempty [OF ne] split: if_splits)
  from matchLoop_Some [OF this] obtain i c where
    c: "candidateConfidence (snd (Math_random w)) i (?cands ! i) = Some c" "t \<le> c"
       "m_confidence m = toFixed2 c"
    by auto
  have "c \<le> 98 / 100"
    using c(1) by (auto simp: candidateConfidence_def dest: simulatedConfidence_le)
  then have "toFixed2 c \<le> toFixed2 (98 / 100)"
    by (rule toFixed2_mono)
  then have up: "m_confidence m \<le> 98 / 100"
    using toFixed2_hundredth [of 98] c(3) by simp
  have low: "toFixed2 t \<le> m_confidence m"
    using toFixed2_mono [OF c(2)] c(3) by simp
  have "t \<le> m_confidence m" if "t = of_int k / 100" for k :: int
    using low toFixed2_hundredth [of k] that by simp
  with up low toFixed2_is_hundredth [of c] c(3) show ?thesis
    by auto
qed

theorem bounded_confidence_witness:
  "fst (simulateFaceRecognition ''frame'' [asha, ravi] (75 / 100)
         (example_world 1793610000000 [1 / 2, 127 / 175, 251 / 350, 1 / 2]))
     = Some \<lparr>m_student = ravi, m_confidence = 85 / 100\<rparr>
   \<and> toFixed2 (75 / 100) \<le> (85 / 100 :: real) \<and> (85 / 100 :: real) \<le> 98 / 100
   \<and> (75 / 100 :: real) \<le> 85 / 100"
proof -
  have h: "fst (simulateFaceRecognition ''frame'' [asha, ravi] (75 / 100)
         (example_world 1793610000000 [1 / 2, 127 / 175, 251 / 350, 1 / 2]))
     = Some \<lparr>m_student = ravi, m_confidence = 85 / 100\<rparr>"
    by (simp add: matcher_eval del: matchLoop.simps(2))
  have "\<exists>k::int. (75 / 100 :: real) = of_int k / 100"
    by (rule exI [of _ 75]) simp
  with bounded_confidence [OF h] h show ?thesis
    by simp
qed

text \<open>
  C5. Threshold monotonicity: when the matcher returns a result at threshold \<open>t\<close>, it
  returns a result at every threshold \<open>t' \<le> t\<close> in the same world (the same clock readings
  and random draws), and it waits as long and leaves the world the same. The simulated
  confidence of a candidate (\<open>candidateConfidence\<close>) has no threshold among its arguments:
  the threshold enters in the test of \<open>better\<close> only.
\<close>

theorem threshold_monotonicity:
  assumes "fst (simulateFaceRecognition img studs t w) \<noteq> None" and "t' \<le> t"
  shows "fst (simulateFaceRecognition img studs t' w) \<noteq> None
         \<and> snd (simulateFaceRecognition img studs t' w) = snd (simulateFaceRecognition img studs t w)"
proof -
  let ?cands = "filter has_photo studs"
  have ne: "?cands \<noteq> []"
    using assms(1) simulate_empty [of studs img t w] by (cases "?cands = []") auto
  from assms(1) have gate: "\<not> random w (random_draws w + length ?cands + 1) < 15 / 100"
    and found: "fst (matchLoop t ?cands None (snd (Math_random w))) \<noteq> None"
    by (simp_all add: simulate_nonempty [OF ne] split: if_splits)
  from found have "\<exists>i<length ?cands. valid_match t (snd (Math_random w)) i (?cands ! i)"
    unfolding matchLoop_found_iff by simp
  then have "\<exists>i<length ?cands. valid_match t' (snd (Math_random w)) i (?cands ! i)"
    using valid_match_mono [OF _ assms(2)] by blast
  then have "fst (matchLoop t' ?cands None (snd (Math_random w))) \<noteq> None"
    unfolding matchLoop_found_iff by simp
  with gate show ?thesis
    by (simp add: simulate_nonempty [OF ne])
qed

theorem threshold_monotonicity_witness:
  "fst (simulateFaceRecognition ''frame'' [asha, ravi] (80 / 100)
         (example_world 1793610000000 [1 / 2, 127 / 175, 251 / 350, 1 / 2])) \<noteq> None
   \<and> (75 / 100 :: real) \<le> 80 / 100
   \<and> fst (simulateFaceRecognition ''frame'' [asha, ravi] (75 / 100)
         (example_world 1793610000000 [1 / 2, 127 / 175, 251 / 350, 1 / 2])) \<noteq> None"
proof -
  have h: "fst (simulateFaceRecognition ''frame'' [asha, ravi] (80 / 100)
         (example_world 1793610000000 [1 / 2, 127 / 175, 251 / 350, 1 / 2])) \<noteq> None"
    by (simp add: matcher_eval del: matchLoop.simps(2))
  have le: "(75 / 100 :: real) \<le> 80 / 100"
    by simp
  from threshold_monotonicity [OF h le] h show ?thesis
    by simp
qed

text \<open>
  C6. When no student has a photo that is not empty, the matcher returns no match, waits
  for no timer and leaves the world as it was: no random draw and no clock reading is
  consumed, for every frame and every threshold.
\<close>

theorem empty_candidates:
  "filter has_photo studs = [] \<Longrightarrow> simulateFaceRecognition img studs t w = (None, None, w)"
  by (simp add: simulateFaceRecognition_def)

theorem empty_candidates_witness:
  "filter has_photo [asha\<lparr>s_photo := None\<rparr>, ravi\<lparr>s_photo := Some ''''\<rparr>] = []
   \<and> simulateFaceRecognition ''frame'' [asha\<lparr>s_photo := None\<rparr>, ravi\<lparr>s_photo := Some ''''\<rparr>] (75 / 100)
         (example_world 1793610000000 [])
       = (None, None, example_world 1793610000000 [])"
proof -
  have h: "filter has_photo [asha\<lparr>s_photo := None\<rparr>, ravi\<lparr>s_photo := Some ''''\<rparr>] = []"
    by (simp add: has_photo_def)
  from empty_candidates [OF h] h show ?thesis
    by simp
qed

text \<open>
  C7. When there is a candidate, an invocation draws \<open>n + 2\<close> random numbers for \<open>n\<close>
  candidates: one for the delay, one for each candidate, and one, after the loop, for the
  false negative. The result is no match when that last draw is below 0.15, and the best
  match of the loop otherwise. So with that one draw replaced by 0 the result is no
  match, while the candidates are valid matches exactly as before.
\<close>

theorem false_negative_gate:
  assumes "filter has_photo studs \<noteq> []"
  shows "random_draws (snd (snd (simulateFaceRecognition img studs t w)))
           = random_draws w + length (filter has_photo studs) + 2
         \<and> fst (simulateFaceRecognition img studs t w)
           = (if random w (random_draws w + length (filter has_photo studs) + 1) < 15 / 100 then None
              else fst (matchLoop t (filter has_photo studs) None (snd (Math_random w))))
         \<and> fst (simulateFaceRecognition img studs t
                  (w\<lparr>random := (random w)(random_draws w + length (filter has_photo studs) + 1 := 0)\<rparr>))
           = None
         \<and> (\<forall>i<length (filter has_photo studs).
              valid_match t (snd (Math_random
                  (w\<lparr>random := (random w)(random_draws w + length (filter has_photo studs) + 1 := 0)\<rparr>))) i
                (filter has_photo studs ! i)
              = valid_match t (snd (Math_random w)) i (filter has_photo studs ! i))"
proof -
  have "valid_match t (snd (Math_random
            (w\<lparr>random := (random w)(random_draws w + length (filter has_photo studs) + 1 := 0)\<rparr>))) i s
        = valid_match t (snd (Math_random w)) i s"
    if "i < length (filter has_photo studs)" for i s
    using that by (simp add: valid_match_def candidateConfidence_def Math_random_def)
  then show ?thesis
    by (simp add: simulate_nonempty [OF assms])
qed

theorem false_negative_gate_witness:
  "filter has_photo [asha] \<noteq> []
   \<and> fst (simulateFaceRecognition ''frame'' [asha] (3 / 4)
            (example_world 1793610000000 [1 / 2, 127 / 175, 1 / 2]))
       = Some \<lparr>m_student = asha, m_confidence = 85 / 100\<rparr>
   \<and> random_draws (snd (snd (simulateFaceRecognition ''frame'' [asha] (3 / 4)
            (example_world 1793610000000 [1 / 2, 127 / 175, 1 / 2])))) = 3
   \<and> valid_match (3 / 4)
        (snd (Math_random ((example_world 1793610000000 [1 / 2, 127 / 175, 1 / 2])
           \<lparr>random := (random (example_world 1793610000000 [1 / 2, 127 / 175, 1 / 2]))(2 := 0)\<rparr>))) 0 asha
   \<and> fst (simulateFaceRecognition ''frame'' [asha] (3 / 4)
            ((example_world 1793610000000 [1 / 2, 127 / 175, 1 / 2])
               \<lparr>random := (random (example_world 1793610000000 [1 / 2, 127 / 175, 1 / 2]))(2 := 0)\<rparr>))
       = None"
proof -
  let ?w = "example_world 1793610000000 [1 / 2, 127 / 175, 1 / 2]"
  let ?w' = "?w\<lparr>random := (random ?w)(2 := 0)\<rparr>"
  have h: "filter has_photo [asha] \<noteq> []"
    by (simp add: has_photo_def asha_def)
  have c: "filter has_photo [asha] = [asha]"
    by (simp add: has_photo_def asha_def)
  have n: "random_draws ?w + length [asha] + 1 = 2"
    and n2: "random_draws ?w + length [asha] + 2 = 3"
    by (simp_all add: example_world_def)
  have v: "valid_match (3 / 4) (snd (Math_random ?w)) 0 asha"
    by (simp add: matcher_eval)
  have g: "\<not> random ?w 2 < 15 / 100"
    by (simp add: example_world_def draws_of_def)
  have b: "fst (matchLoop (3 / 4) [asha] None (snd (Math_random ?w)))
      = Some \<lparr>m_student = asha, m_confidence = 85 / 100\<rparr>"
    by (simp add: matcher_eval del: matchLoop.simps(2))
  note gate = false_negative_gate [OF h, of "''frame''" "3 / 4" ?w, unfolded c n n2]
  from gate have draws: "random_draws (snd (snd (simulateFaceRecognition ''frame'' [asha] (3 / 4) ?w))) = 3"
    by (rule conjunct1)
  from gate g b have result: "fst (simulateFaceRecognition ''frame'' [asha] (3 / 4) ?w)
      = Some \<lparr>m_student = asha, m_confidence = 85 / 100\<rparr>"
    by simp
  from gate have miss: "fst (simulateFaceRecognition ''frame'' [asha] (3 / 4) ?w') = None"
    by blast
  from gate have "\<forall>i<length [asha]. valid_match (3 / 4) (snd (Math_random ?w')) i ([asha] ! i)
      = valid_match (3 / 4) (snd (Math_random ?w)) i ([asha] ! i)"
    by blast
  with v have still: "valid_match (3 / 4) (snd (Math_random ?w')) 0 asha"
    by simp
  from h result draws still miss show ?thesis
    by blast
qed

section \<open>Storage and marking, step by step\<close>

lemma newNotification_eq:
  "newNotification n w =
     (\<lparr>n_id = toString (clock w (clock_reads w)), n_type = i_type n, n_title = i_title n,
       n_message = i_message n, n_timestamp = TimeValue (clock w (Suc (clock_reads w))),
       n_read = False\<rparr>,
      w\<lparr>clock_reads := clock_reads w + 2\<rparr>)"
  by (simp add: newNotification_def Date_now_def new_Date_def)

lemma notify_eq:
  "notify ty title msg app w =
     (app\<lparr>notifications :=
        \<lparr>n_id = toString (clock w (clock_reads w)), n_type = ty, n_title = title,
         n_message = msg, n_timestamp = TimeValue (clock w (Suc (clock_reads w))),
         n_read = False\<rparr> # take 49 (notifications app)\<rparr>,
      w\<lparr>clock_reads := clock_reads w + 2\<rparr>)"
  by (simp add: notify_def addNotification_eq newNotification_eq)

lemma fetchStudents_eq:
  "fetchStudents st w =
     (case reply_error w (length (requests w)) of
        Some err \<Rightarrow> st\<lparr>db_error := Some (errorMessage err ''Failed to fetch students'')\<rparr>
      | None \<Rightarrow> st\<lparr>students := rows_of (reply_students w (length (requests w)))\<rparr>,
      w\<lparr>requests := requests w @ [SelectStudents]\<rparr>)"
  by (simp add: fetchStudents_def supabase_def rows_of_def split: option.splits)

lemma fetchRecords_eq:
  "fetchRecords st w =
     (case reply_error w (length (requests w)) of
        Some err \<Rightarrow> st\<lparr>db_error := Some (errorMessage err ''Failed to fetch records'')\<rparr>
      | None \<Rightarrow> st\<lparr>records := rows_of (reply_records w (length (requests w)))\<rparr>,
      w\<lparr>requests := requests w @ [SelectRecords]\<rparr>)"
  by (simp add: fetchRecords_def supabase_def rows_of_def split: option.splits)

lemma addStudent_failure:
  "reply_error w (length (requests w)) = Some err \<Longrightarrow>
   addStudent d st w =
     (Inl err, st\<lparr>db_error := Some (errorMessage err ''Failed to add student'')\<rparr>,
      w\<lparr>requests := requests w @ [InsertStudent d]\<rparr>)"
  by (simp add: addStudent_def supabase_def)

lemma addStudent_success:
  "reply_error w (length (requests w)) = None \<Longrightarrow>
   addStudent d st w =
     (Inr (), fetchStudents st (w\<lparr>requests := requests w @ [InsertStudent d]\<rparr>))"
  by (simp add: addStudent_def supabase_def split: prod.splits)

lemma removeStudent_failure:
  "reply_error w (length (requests w)) = Some err \<Longrightarrow>
   removeStudent i st w =
     (Inl err, st\<lparr>db_error := Some (errorMessage err ''Failed to remove student'')\<rparr>,
      w\<lparr>requests := requests w @ [DeleteStudent i]\<rparr>)"
  by (simp add: removeStudent_def supabase_def)

lemma removeStudent_success:
  "reply_error w (length (requests w)) = None \<Longrightarrow>
   removeStudent i st w =
     (Inr (),
      fetchRecords (fst (fetchStudents st (w\<lparr>requests := requests w @ [DeleteStudent i]\<rparr>)))
                   (snd (fetchStudents st (w\<lparr>requests := requests w @ [DeleteStudent i]\<rparr>))))"
  by (simp add: removeStudent_def supabase_def split: prod.splits)

lemma toggleStudentStatus_absent:
  "find (\<lambda>s. s_id s = i) (students st) = None \<Longrightarrow> toggleStudentStatus i st w = (Inr (), st, w)"
  by (simp add: toggleStudentStatus_def)

lemma toggleStudentStatus_failure:
  "find (\<lambda>s. s_id s = i) (students st) = Some s \<Longrightarrow>
   reply_error w (length (requests w)) = Some err \<Longrightarrow>
   toggleStudentStatus i st w =
     (Inl err, st\<lparr>db_error := Some (errorMessage err ''Failed to update student status'')\<rparr>,
      w\<lparr>requests := requests w @ [UpdateStudentActive i (\<not> s_isActive s)]\<rparr>)"
  by (simp add: toggleStudentStatus_def supabase_def)

lemma toggleStudentStatus_success:
  "find (\<lambda>s. s_id s = i) (students st) = Some s \<Longrightarrow>
   reply_error w (length (requests w)) = None \<Longrightarrow>
   toggleStudentStatus i st w =
     (Inr (), fetchStudents st (w\<lparr>requests := requests w @ [UpdateStudentActive i (\<not> s_isActive s)]\<rparr>))"
  by (simp add: toggleStudentStatus_def supabase_def split: prod.splits)

lemma addAttendanceRecord_invalid:
  "r_timestamp record = InvalidDate \<Longrightarrow>
   addAttendanceRecord record st w =
     (Inl (ErrorObject ''Invalid time value''), st\<lparr>db_error := Some ''Invalid time value''\<rparr>, w)"
  by (simp add: addAttendanceRecord_def getTime_def)

lemma addAttendanceRecord_failure:
  "r_timestamp record = TimeValue t \<Longrightarrow>
   reply_error w (length (requests w)) = Some err \<Longrightarrow>
   addAttendanceRecord record st w =
     (Inl err, st\<lparr>db_error := Some (errorMessage err ''Failed to add attendance record'')\<rparr>,
      w\<lparr>requests := requests w @ [InsertRecord record]\<rparr>)"
  by (simp add: addAttendanceRecord_def supabase_def getTime_def)

lemma addAttendanceRecord_success:
  "r_timestamp record = TimeValue t \<Longrightarrow>
   reply_error w (length (requests w)) = None \<Longrightarrow>
   addAttendanceRecord record st w =
     (Inr (), fetchRecords st (w\<lparr>requests := requests w @ [InsertRecord record]\<rparr>))"
  by (simp add: addAttendanceRecord_def supabase_def getTime_def split: prod.splits)

lemma handleAttendanceMarked_rejected:
  "hasAttended (tza w) (r_studentId record) (today w) (records (db app)) \<Longrightarrow>
   \<not> allowMultipleMarking (settings app) \<Longrightarrow>
   handleAttendanceMarked record app w =
     notify Warning ''Already Marked'' (r_studentName record @ '' has already marked attendance today.'')
       app (w\<lparr>clock_reads := Suc (clock_reads w)\<rparr>)"
  by (simp add: handleAttendanceMarked_def new_Date_def today_def)

lemma handleAttendanceMarked_accepted:
  "\<not> hasAttended (tza w) (r_studentId record) (today w) (records (db app))
     \<or> allowMultipleMarking (settings app) \<Longrightarrow>
   handleAttendanceMarked record app w =
     (case addAttendanceRecord record (db app) (w\<lparr>clock_reads := clock_reads w + 2\<rparr>) of
        (Inr u, st1, w3) \<Rightarrow>
          if num_ge (currentTime w) (minutesOf (wh_start (workingHours (settings app))))
             \<and> num_le (currentTime w) (minutesOf (wh_end (workingHours (settings app))))
          then notify Success ''Attendance Marked''
                 (r_studentName record @ '' attendance recorded successfully.'') (app\<lparr>db := st1\<rparr>) w3
          else notify Warning ''Outside Working Hours''
                 (''Attendance marked for '' @ r_studentName record @ '' outside working hours.'')
                 (app\<lparr>db := st1\<rparr>) w3
      | (Inl err, st1, w3) \<Rightarrow>
          notify Error ''Error'' ''Failed to mark attendance. Please try again.'' (app\<lparr>db := st1\<rparr>) w3)"
  by (auto simp: handleAttendanceMarked_def new_Date_def today_def currentTime_def Let_def
           split: prod.splits sum.splits)

section \<open>Duplicate suppression and working hours\<close>

lemma same_day_same_date:
  "Day (LocalTime tz a) = Day (LocalTime tz b) \<Longrightarrow>
   toDateString tz (TimeValue a) = toDateString tz (TimeValue b)"
  by (simp add: toDateString_def YearFromTime_def MonthFromTime_def DateFromTime_def WeekDay_def
        Let_def)

lemma hasAttended_iff:
  "hasAttended tz ident day rs \<longleftrightarrow>
     (\<exists>r\<in>set rs. r_studentId r = ident \<and> toDateString tz (r_timestamp r) = day)"
  by (simp add: hasAttended_def list_ex_iff)






text \<open>
  C1, amended. When marking several times a day is not allowed and some record held
  locally has the student id of the proposed record and the calendar date (local time) of
  the clock reading that the handler takes for today, then nothing is sent to the storage,
  the local collections stay as they are and the warning \<^verbatim>\<open>Already Marked\<close> is put in
  front of the notifications. The timestamp of the proposed record is not looked at. When
  marking several times a day is allowed and the timestamp of the proposed record is a
  valid date, the insert of the record is the next request sent to the storage, whatever
  the records held locally; when the storage serves it, the notification in front is
  \<^verbatim>\<open>Attendance Marked\<close> or \<^verbatim>\<open>Outside Working Hours\<close>. A timestamp on the same local
  day as that clock reading has the calendar date of today.
\<close>

theorem duplicate_suppression:
  "((\<exists>r\<in>set (records (db app)). r_studentId r = r_studentId record
        \<and> toDateString (tza w) (r_timestamp r) = today w)
      \<and> \<not> allowMultipleMarking (settings app) \<longrightarrow>
        requests (snd (handleAttendanceMarked record app w)) = requests w
      \<and> db (fst (handleAttendanceMarked record app w)) = db app
      \<and> n_type (hd (notifications (fst (handleAttendanceMarked record app w)))) = Warning
      \<and> n_title (hd (notifications (fst (handleAttendanceMarked record app w)))) = ''Already Marked'')
   \<and> (allowMultipleMarking (settings app) \<and> r_timestamp record \<noteq> InvalidDate \<longrightarrow>
        take (Suc (length (requests w))) (requests (snd (handleAttendanceMarked record app w)))
          = requests w @ [InsertRecord record]
      \<and> (reply_error w (length (requests w)) = None \<longrightarrow>
           n_title (hd (notifications (fst (handleAttendanceMarked record app w))))
             \<in> {''Attendance Marked'', ''Outside Working Hours''}))
   \<and> (\<forall>a. Day (LocalTime (tza w) a) = Day (LocalTime (tza w) (clock w (clock_reads w))) \<longrightarrow>
          toDateString (tza w) (TimeValue a) = today w)"
proof -
  have same_day: "toDateString (tza w) (TimeValue a) = today w"
    if "Day (LocalTime (tza w) a) = Day (LocalTime (tza w) (clock w (clock_reads w)))" for a
    using same_day_same_date [OF that] by (simp add: today_def)
  have rejected: "requests (snd (handleAttendanceMarked record app w)) = requests w
      \<and> db (fst (handleAttendanceMarked record app w)) = db app
      \<and> n_type (hd (notifications (fst (handleAttendanceMarked record app w)))) = Warning
      \<and> n_title (hd (notifications (fst (handleAttendanceMarked record app w)))) = ''Already Marked''"
    if "\<exists>r\<in>set (records (db app)). r_studentId r = r_studentId record
          \<and> toDateString (tza w) (r_timestamp r) = today w"
      and "\<not> allowMultipleMarking (settings app)"
    using handleAttendanceMarked_rejected [of w "record" app] that
    by (simp add: hasAttended_iff notify_eq)
  have accepted: "take (Suc (length (requests w))) (requests (snd (handleAttendanceMarked record app w)))
          = requests w @ [InsertRecord record]
      \<and> (reply_error w (length (requests w)) = None \<longrightarrow>
           n_title (hd (notifications (fst (handleAttendanceMarked record app w))))
             \<in> {''Attendance Marked'', ''Outside Working Hours''})"
    if allow: "allowMultipleMarking (settings app)" and valid: "r_timestamp record \<noteq> InvalidDate"
  proof -
    from valid obtain t where t: "r_timestamp record = TimeValue t"
      by (cases "r_timestamp record") auto
    note acc = handleAttendanceMarked_accepted [of w "record" app, OF disjI2 [OF allow]]
    show ?thesis
    proof (cases "reply_error w (length (requests w))")
      case None
      then show ?thesis
        using acc t
        by (simp add: addAttendanceRecord_success [of "record" t] fetchRecords_eq notify_eq)
    next
      case (Some err)
      then show ?thesis
        using acc t
        by (simp add: addAttendanceRecord_failure [of "record" t _ err] notify_eq)
    qed
  qed
  from rejected accepted same_day show ?thesis
    by blast
qed


lemma handleAttendanceMarked_served:
  assumes "\<not> hasAttended (tza w) (r_studentId record) (today w) (records (db app))
             \<or> allowMultipleMarking (settings app)"
    and "r_timestamp record = TimeValue t"
    and "reply_error w (length (requests w)) = None"
  shows "requests (snd (handleAttendanceMarked record app w))
           = requests w @ [InsertRecord record, SelectRecords]"
    and "n_type (hd (notifications (fst (handleAttendanceMarked record app w))))
           = (if within_hours (settings app) (currentTime w) then Success else Warning)"
    and "n_title (hd (notifications (fst (handleAttendanceMarked record app w))))
           = (if within_hours (settings app) (currentTime w) then ''Attendance Marked''
              else ''Outside Working Hours'')"
  using assms(2,3)
  by (simp_all add: handleAttendanceMarked_accepted [OF assms(1)]
        addAttendanceRecord_success [of "record" t] fetchRecords_eq notify_eq within_hours_def)

lemma handleAttendanceMarked_failed:
  assumes "\<not> hasAttended (tza w) (r_studentId record) (today w) (records (db app))
             \<or> allowMultipleMarking (settings app)"
    and "r_timestamp record = TimeValue t"
    and "reply_error w (length (requests w)) = Some err"
  shows "requests (snd (handleAttendanceMarked record app w)) = requests w @ [InsertRecord record]"
    and "n_type (hd (notifications (fst (handleAttendanceMarked record app w)))) = Error"
    and "same_collections (db app) (db (fst (handleAttendanceMarked record app w)))"
  using assms(2,3)
  by (simp_all add: handleAttendanceMarked_accepted [OF assms(1)]
        addAttendanceRecord_failure [of "record" t _ err] notify_eq same_collections_def)

lemma sample_world_facts:
  "tza (example_world t0 xs) = utc"
  "clock (example_world t0 xs) k = t0"
  "clock_reads (example_world t0 xs) = 0"
  "requests (example_world t0 xs) = []"
  "reply_error (example_world t0 xs) k = None"
  by (simp_all add: example_world_def)

lemma sample_app_facts:
  "records (db (sample_app rs multiple)) = rs"
  "allowMultipleMarking (settings (sample_app rs multiple)) = multiple"
  "workingHours (settings (sample_app rs multiple))
     = \<lparr>wh_start = code_units ''09:00'', wh_end = code_units ''17:00''\<rparr>"
  "notifications (sample_app rs multiple) = []"
  by (simp_all add: sample_app_def sample_db_def defaultSettings_def)

lemma sample_record_facts:
  "r_studentId (proposal t) = ''id-asha''"
  "r_timestamp (proposal t) = TimeValue t"
  "r_studentId (stored t) = ''id-asha''"
  "r_timestamp (stored t) = TimeValue t"
  by (simp_all add: proposal_def stored_def)

lemma sample_dates:
  "toDateString utc (TimeValue 1793523600000) = ''Sun Nov 01 2026''"
  "toDateString utc (TimeValue 1793577599999) = ''Sun Nov 01 2026''"
  "toDateString utc (TimeValue 1793577600001) = ''Mon Nov 02 2026''"
  "toDateString utc (TimeValue 1793610000000) = ''Mon Nov 02 2026''"
  "toDateString utc (TimeValue 1793613600000) = ''Mon Nov 02 2026''"
  by code_simp+







text \<open>
  The claim C1 as stated fails: it compares the date of the existing records with the date
  of the timestamp of the proposed record. Here a record of the same student exists for
  November 1, the proposed record is stamped November 1, 23:59:59.999, and the handler
  reads the clock at November 2, 00:00:00.001; marking several times is not allowed. The
  proposal is not rejected: the insert is sent to the storage.
\<close>

theorem duplicate_suppression_counterexample:
  "\<not> allowMultipleMarking (settings (sample_app [stored 1793523600000] False))
   \<and> stored 1793523600000 \<in> set (records (db (sample_app [stored 1793523600000] False)))
   \<and> r_studentId (stored 1793523600000) = r_studentId (proposal 1793577599999)
   \<and> toDateString utc (r_timestamp (stored 1793523600000))
       = toDateString utc (r_timestamp (proposal 1793577599999))
   \<and> requests (snd (handleAttendanceMarked (proposal 1793577599999)
          (sample_app [stored 1793523600000] False) (example_world 1793577600001 [])))
       = [InsertRecord (proposal 1793577599999), SelectRecords]"
proof -
  have "\<not> hasAttended (tza (example_world 1793577600001 [])) (r_studentId (proposal 1793577599999))
          (today (example_world 1793577600001 []))
          (records (db (sample_app [stored 1793523600000] False)))"
    by (simp add: hasAttended_def today_def sample_world_facts sample_app_facts sample_record_facts
          sample_dates)
  then have "requests (snd (handleAttendanceMarked (proposal 1793577599999)
          (sample_app [stored 1793523600000] False) (example_world 1793577600001 [])))
       = [InsertRecord (proposal 1793577599999), SelectRecords]"
    by (subst handleAttendanceMarked_served(1) [of _ _ _ 1793577599999])
       (simp_all add: sample_world_facts sample_record_facts)
  then show ?thesis
    by (simp add: sample_app_facts sample_record_facts sample_dates)
qed

theorem duplicate_suppression_witness:
  "(\<exists>r\<in>set (records (db (sample_app [stored 1793610000000] False))).
        r_studentId r = r_studentId (proposal 1793613600000)
        \<and> toDateString (tza (example_world 1793613600000 [])) (r_timestamp r)
            = today (example_world 1793613600000 []))
   \<and> \<not> allowMultipleMarking (settings (sample_app [stored 1793610000000] False))
   \<and> requests (snd (handleAttendanceMarked (proposal 1793613600000)
          (sample_app [stored 1793610000000] False) (example_world 1793613600000 []))) = []
   \<and> n_title (hd (notifications (fst (handleAttendanceMarked (proposal 1793613600000)
          (sample_app [stored 1793610000000] False) (example_world 1793613600000 [])))))
       = ''Already Marked''
   \<and> allowMultipleMarking (settings (sample_app [stored 1793610000000] True))
   \<and> r_timestamp (proposal 1793613600000) \<noteq> InvalidDate
   \<and> take 1 (requests (snd (handleAttendanceMarked (proposal 1793613600000)
          (sample_app [stored 1793610000000] True) (example_world 1793613600000 []))))
       = [InsertRecord (proposal 1793613600000)]
   \<and> n_title (hd (notifications (fst (handleAttendanceMarked (proposal 1793613600000)
          (sample_app [stored 1793610000000] True) (example_world 1793613600000 [])))))
       \<in> {''Attendance Marked'', ''Outside Working Hours''}"
proof -
  have dup: "\<exists>r\<in>set (records (db (sample_app [stored 1793610000000] False))).
        r_studentId r = r_studentId (proposal 1793613600000)
        \<and> toDateString (tza (example_world 1793613600000 [])) (r_timestamp r)
            = today (example_world 1793613600000 [])"
    by (simp add: today_def sample_world_facts sample_app_facts sample_record_facts sample_dates)
  have single: "\<not> allowMultipleMarking (settings (sample_app [stored 1793610000000] False))"
    and multiple: "allowMultipleMarking (settings (sample_app [stored 1793610000000] True))"
    and valid: "r_timestamp (proposal 1793613600000) \<noteq> InvalidDate"
    by (simp_all add: sample_app_facts sample_record_facts)
  from duplicate_suppression [of "sample_app [stored 1793610000000] False" "proposal 1793613600000"
      "example_world 1793613600000 []"]
    duplicate_suppression [of "sample_app [stored 1793610000000] True" "proposal 1793613600000"
      "example_world 1793613600000 []"]
    dup single multiple valid
  show ?thesis
    by (simp add: sample_world_facts)
qed




section \<open>Writes that fail\<close>

lemma same_collections_simps:
  "same_collections st st"
  "same_collections st (st\<lparr>db_error := e\<rparr>)"
  by (simp_all add: same_collections_def)

lemma fetchStudents_failure: 
  "reply_error w (length (requests w)) = Some err \<Longrightarrow> same_collections st (fst (fetchStudents st w))"
  by (simp add: fetchStudents_eq same_collections_def)

lemma addStudent_atomic:
  "reply_error w (length (requests w)) = Some err \<or> fst (addStudent d st w) \<noteq> Inr ()
     \<Longrightarrow> same_collections st (fst (snd (addStudent d st w)))"
  by (cases "reply_error w (length (requests w))")
     (auto simp: addStudent_success addStudent_failure same_collections_simps)

lemma removeStudent_atomic:
  "reply_error w (length (requests w)) = Some err \<or> fst (removeStudent i st w) \<noteq> Inr ()
     \<Longrightarrow> same_collections st (fst (snd (removeStudent i st w)))"
  by (cases "reply_error w (length (requests w))")
     (auto simp: removeStudent_success removeStudent_failure same_collections_simps)

lemma toggleStudentStatus_atomic:
  "reply_error w (length (requests w)) = Some err \<or> fst (toggleStudentStatus i st w) \<noteq> Inr ()
     \<Longrightarrow> same_collections st (fst (snd (toggleStudentStatus i st w)))"
  by (cases "reply_error w (length (requests w))"; cases "find (\<lambda>s. s_id s = i) (students st)")
     (auto simp: toggleStudentStatus_success toggleStudentStatus_failure toggleStudentStatus_absent
        same_collections_simps)

lemma addAttendanceRecord_atomic:
  "reply_error w (length (requests w)) = Some err \<or> fst (addAttendanceRecord record st w) \<noteq> Inr ()
     \<Longrightarrow> same_collections st (fst (snd (addAttendanceRecord record st w)))"
  by (cases "reply_error w (length (requests w))"; cases "r_timestamp record")
     (auto simp: addAttendanceRecord_success addAttendanceRecord_failure addAttendanceRecord_invalid
        same_collections_simps)

lemma addStudent_change:
  "\<not> same_collections st (fst (snd (addStudent d st w))) \<Longrightarrow>
     reply_error w (length (requests w)) = None
     \<and> snd (addStudent d st w) = fetchStudents st (w\<lparr>requests := requests w @ [InsertStudent d]\<rparr>)"
  by (cases "reply_error w (length (requests w))")
     (auto simp: addStudent_success addStudent_failure same_collections_simps)

lemma removeStudent_change:
  "\<not> same_collections st (fst (snd (removeStudent i st w))) \<Longrightarrow>
     reply_error w (length (requests w)) = None
     \<and> snd (removeStudent i st w) =
         fetchRecords (fst (fetchStudents st (w\<lparr>requests := requests w @ [DeleteStudent i]\<rparr>)))
                      (snd (fetchStudents st (w\<lparr>requests := requests w @ [DeleteStudent i]\<rparr>)))"
  by (cases "reply_error w (length (requests w))")
     (auto simp: removeStudent_success removeStudent_failure same_collections_simps)

lemma toggleStudentStatus_change:
  "\<not> same_collections st (fst (snd (toggleStudentStatus i st w))) \<Longrightarrow>
     reply_error w (length (requests w)) = None
     \<and> (\<exists>s. find (\<lambda>s. s_id s = i) (students st) = Some s
          \<and> snd (toggleStudentStatus i st w) =
              fetchStudents st (w\<lparr>requests := requests w @ [UpdateStudentActive i (\<not> s_isActive s)]\<rparr>))"
  by (cases "reply_error w (length (requests w))"; cases "find (\<lambda>s. s_id s = i) (students st)")
     (auto simp: toggleStudentStatus_success toggleStudentStatus_failure toggleStudentStatus_absent
        same_collections_simps)

lemma addAttendanceRecord_change:
  "\<not> same_collections st (fst (snd (addAttendanceRecord record st w))) \<Longrightarrow>
     reply_error w (length (requests w)) = None
     \<and> snd (addAttendanceRecord record st w) =
         fetchRecords st (w\<lparr>requests := requests w @ [InsertRecord record]\<rparr>)"
  by (cases "reply_error w (length (requests w))"; cases "r_timestamp record")
     (auto simp: addAttendanceRecord_success addAttendanceRecord_failure addAttendanceRecord_invalid
        same_collections_simps)

lemma handleAddStudent_db:
  "db (fst (handleAddStudent d app w)) = fst (snd (addStudent d (db app) w))"
  by (simp add: handleAddStudent_def notify_eq split: prod.splits sum.splits)

lemma handleRemoveStudent_db:
  "db (fst (handleRemoveStudent i app w)) = fst (snd (removeStudent i (db app) w))"
  by (simp add: handleRemoveStudent_def notify_eq Let_def split: prod.splits sum.splits option.splits)

lemma handleToggleStudentStatus_db:
  "db (fst (handleToggleStudentStatus i app w)) = fst (snd (toggleStudentStatus i (db app) w))"
  by (simp add: handleToggleStudentStatus_def notify_eq split: prod.splits sum.splits)

lemma handleAttendanceMarked_db:
  "db (fst (handleAttendanceMarked record app w)) = db app
   \<or> db (fst (handleAttendanceMarked record app w))
       = fst (snd (addAttendanceRecord record (db app) (w\<lparr>clock_reads := clock_reads w + 2\<rparr>)))"
proof (cases "hasAttended (tza w) (r_studentId record) (today w) (records (db app))
    \<and> \<not> allowMultipleMarking (settings app)")
  case True
  then show ?thesis
    by (simp add: handleAttendanceMarked_rejected notify_eq)
next
  case False
  then have "\<not> hasAttended (tza w) (r_studentId record) (today w) (records (db app))
     \<or> allowMultipleMarking (settings app)"
    by blast
  then show ?thesis
    by (simp add: handleAttendanceMarked_accepted notify_eq split: prod.splits sum.splits)
qed

lemma handleAttendanceMarked_atomic:
  assumes "reply_error w (length (requests w)) = Some err"
  shows "same_collections (db app) (db (fst (handleAttendanceMarked record app w)))"
proof -
  have "reply_error (w\<lparr>clock_reads := clock_reads w + 2\<rparr>)
          (length (requests (w\<lparr>clock_reads := clock_reads w + 2\<rparr>))) = Some err"
    using assms by simp
  then have "same_collections (db app)
      (fst (snd (addAttendanceRecord record (db app) (w\<lparr>clock_reads := clock_reads w + 2\<rparr>))))"
    by (intro addAttendanceRecord_atomic disjI1)
  with handleAttendanceMarked_db [of "record" app w] show ?thesis
    by (auto simp: same_collections_simps)
qed

text \<open>
  C9. For each of the four writes (add student, remove student, toggle status, add
  attendance record): when the storage answers the request with an error, or when the
  write throws, the students and records held locally are the same after the operation
  as before, also seen from the handlers of the application; and when a collection
  held locally differs after the operation, the storage has served the write and the
  state is the one that the refetch after the write produced.
\<close>

theorem write_atomicity:
  "(reply_error w (length (requests w)) = Some err \<longrightarrow>
        same_collections st (fst (snd (addStudent d st w)))
      \<and> same_collections st (fst (snd (removeStudent i st w)))
      \<and> same_collections st (fst (snd (toggleStudentStatus i st w)))
      \<and> same_collections st (fst (snd (addAttendanceRecord record st w)))
      \<and> same_collections (db app) (db (fst (handleAddStudent d app w)))
      \<and> same_collections (db app) (db (fst (handleRemoveStudent i app w)))
      \<and> same_collections (db app) (db (fst (handleToggleStudentStatus i app w)))
      \<and> same_collections (db app) (db (fst (handleAttendanceMarked record app w))))
   \<and> (fst (addStudent d st w) \<noteq> Inr () \<longrightarrow> same_collections st (fst (snd (addStudent d st w))))
   \<and> (fst (removeStudent i st w) \<noteq> Inr () \<longrightarrow> same_collections st (fst (snd (removeStudent i st w))))
   \<and> (fst (toggleStudentStatus i st w) \<noteq> Inr () \<longrightarrow>
        same_collections st (fst (snd (toggleStudentStatus i st w))))
   \<and> (fst (addAttendanceRecord record st w) \<noteq> Inr () \<longrightarrow>
        same_collections st (fst (snd (addAttendanceRecord record st w))))
   \<and> (\<not> same_collections st (fst (snd (addStudent d st w))) \<longrightarrow>
        reply_error w (length (requests w)) = None
        \<and> snd (addStudent d st w) = fetchStudents st (w\<lparr>requests := requests w @ [InsertStudent d]\<rparr>))
   \<and> (\<not> same_collections st (fst (snd (removeStudent i st w))) \<longrightarrow>
        reply_error w (length (requests w)) = None
        \<and> snd (removeStudent i st w) =
            fetchRecords (fst (fetchStudents st (w\<lparr>requests := requests w @ [DeleteStudent i]\<rparr>)))
                         (snd (fetchStudents st (w\<lparr>requests := requests w @ [DeleteStudent i]\<rparr>))))
   \<and> (\<not> same_collections st (fst (snd (toggleStudentStatus i st w))) \<longrightarrow>
        reply_error w (length (requests w)) = None
        \<and> (\<exists>s. find (\<lambda>s. s_id s = i) (students st) = Some s
             \<and> snd (toggleStudentStatus i st w) =
                 fetchStudents st (w\<lparr>requests := requests w @ [UpdateStudentActive i (\<not> s_isActive s)]\<rparr>)))
   \<and> (\<not> same_collections st (fst (snd (addAttendanceRecord record st w))) \<longrightarrow>
        reply_error w (length (requests w)) = None
        \<and> snd (addAttendanceRecord record st w) =
            fetchRecords st (w\<lparr>requests := requests w @ [InsertRecord record]\<rparr>))"
proof -
  have failing: "same_collections st (fst (snd (addStudent d st w)))
      \<and> same_collections st (fst (snd (removeStudent i st w)))
      \<and> same_collections st (fst (snd (toggleStudentStatus i st w)))
      \<and> same_collections st (fst (snd (addAttendanceRecord record st w)))
      \<and> same_collections (db app) (db (fst (handleAddStudent d app w)))
      \<and> same_collections (db app) (db (fst (handleRemoveStudent i app w)))
      \<and> same_collections (db app) (db (fst (handleToggleStudentStatus i app w)))
      \<and> same_collections (db app) (db (fst (handleAttendanceMarked record app w)))"
    if "reply_error w (length (requests w)) = Some err"
    using that addStudent_atomic [of w err] removeStudent_atomic [of w err]
      toggleStudentStatus_atomic [of w err] addAttendanceRecord_atomic [of w err]
      handleAttendanceMarked_atomic [of w err]
    by (simp add: handleAddStudent_db handleRemoveStudent_db handleToggleStudentStatus_db)
  show ?thesis
    using failing addStudent_atomic [of w err d st] removeStudent_atomic [of w err i st]
      toggleStudentStatus_atomic [of w err i st] addAttendanceRecord_atomic [of w err "record" st]
      addStudent_change [of st d w] removeStudent_change [of st i w]
      toggleStudentStatus_change [of st i w] addAttendanceRecord_change [of st "record" w]
    by blast
qed

theorem write_atomicity_witness:
  "reply_error failing_world (length (requests failing_world)) = Some (ErrorObject ''Failed to fetch'')
   \<and> fst (addAttendanceRecord (proposal 1793610000000) (sample_db []) failing_world) \<noteq> Inr ()
   \<and> same_collections (sample_db [])
        (fst (snd (addAttendanceRecord (proposal 1793610000000) (sample_db []) failing_world)))
   \<and> same_collections (sample_db []) (fst (snd (addStudent (StudentData.truncate asha) (sample_db []) failing_world)))
   \<and> \<not> same_collections (sample_db [])
        (fst (snd (addAttendanceRecord (proposal 1793610000000) (sample_db []) refetch_world)))
   \<and> \<not> same_collections (sample_db [])
        (fst (snd (addStudent (StudentData.truncate asha) (sample_db []) refetch_world)))
   \<and> \<not> same_collections (sample_db []) (fst (snd (removeStudent ''id-asha'' (sample_db []) refetch_world)))
   \<and> \<not> same_collections (sample_db []) (fst (snd (toggleStudentStatus ''id-asha'' (sample_db []) refetch_world)))
   \<and> reply_error refetch_world (length (requests refetch_world)) = None"
proof -
  have f: "reply_error failing_world (length (requests failing_world)) = Some (ErrorObject ''Failed to fetch'')"
    by (simp add: failing_world_def)
  have "fst (addAttendanceRecord (proposal 1793610000000) (sample_db []) failing_world) \<noteq> Inr ()"
    by (simp add: addAttendanceRecord_failure [OF _ f, of _ 1793610000000] sample_record_facts)
  moreover have c: "\<not> same_collections (sample_db [])
        (fst (snd (addAttendanceRecord (proposal 1793610000000) (sample_db []) refetch_world)))"
    by (subst addAttendanceRecord_success [of _ 1793610000000])
       (simp_all add: sample_record_facts refetch_world_def example_world_def fetchRecords_eq
          same_collections_def sample_db_def rows_of_def)
  moreover have served: "reply_error refetch_world (length (requests refetch_world)) = None"
    by (simp add: refetch_world_def example_world_def)
  moreover have "\<not> same_collections (sample_db [])
        (fst (snd (addStudent (StudentData.truncate asha) (sample_db []) refetch_world)))"
    by (subst addStudent_success [OF served])
       (simp add: fetchStudents_eq refetch_world_def example_world_def
          same_collections_def sample_db_def rows_of_def)
  moreover have "\<not> same_collections (sample_db [])
        (fst (snd (removeStudent ''id-asha'' (sample_db []) refetch_world)))"
    by (subst removeStudent_success [OF served])
       (simp add: fetchStudents_eq fetchRecords_eq refetch_world_def
          example_world_def same_collections_def sample_db_def rows_of_def)
  moreover have "\<not> same_collections (sample_db [])
        (fst (snd (toggleStudentStatus ''id-asha'' (sample_db []) refetch_world)))"
    by (subst toggleStudentStatus_success [OF _ served, of _ _ asha])
       (simp_all add: fetchStudents_eq refetch_world_def example_world_def
          same_collections_def sample_db_def rows_of_def asha_def)
  ultimately show ?thesis
    using f
      write_atomicity [of failing_world "ErrorObject ''Failed to fetch''" "sample_db []"
        "StudentData.truncate asha" "''id-asha''" "proposal 1793610000000" "sample_app [] False"]
      write_atomicity [of refetch_world "ErrorObject ''Failed to fetch''" "sample_db []"
        "StudentData.truncate asha" "''id-asha''" "proposal 1793610000000" "sample_app [] False"]
    by blast
qed

section \<open>The camera view checks the rounded confidence\<close>

lemma new_Date_requests: "requests (snd (new_Date w)) = requests w"
  by (simp add: new_Date_def)

lemma simulate_requests: "requests (snd (snd (simulateFaceRecognition img studs t w))) = requests w"
  by (cases "filter has_photo studs = []") (simp_all add: simulate_empty simulate_nonempty)

lemma handleRecognition_Some:
  assumes "fst (handleRecognition studs frame ua cs w) = Some record"
  shows "\<exists>img m. frame = Some img \<and> img \<noteq> [] \<and> isActive cs \<and> \<not> isProcessing cs
           \<and> fst (simulateFaceRecognition img studs (cameraThreshold cs) w) = Some m
           \<and> cameraThreshold cs \<le> m_confidence m
           \<and> record = \<lparr>r_studentId = s_id (m_student m), r_studentName = s_name (m_student m),
                  r_timestamp = fst (new_Date (snd (snd (simulateFaceRecognition img studs (cameraThreshold cs) w)))),
                  r_confidence = m_confidence m, r_photo = Some img, r_location = Some ''Main Campus'',
                  r_deviceInfo = at_index (str_split CHR '' '' ua) 0\<rparr>"
  using assms
  by (auto simp: handleRecognition_def Let_def split: if_splits option.splits prod.splits)

lemma handleRecognition_requests:
  "requests (snd (snd (handleRecognition studs frame ua cs w))) = requests w"
proof -
  have "requests w1 = requests w"
    if "simulateFaceRecognition img studs (cameraThreshold cs) w = (r, d, w1)" for img r d w1
    using simulate_requests [of img studs "cameraThreshold cs" w] that by simp
  then show ?thesis
    by (auto simp: handleRecognition_def Let_def new_Date_def split: if_splits option.splits prod.splits)
qed

lemma handleAttendanceMarked_requests:
  "\<exists>rs. requests (snd (handleAttendanceMarked record app w)) = requests w @ rs
        \<and> set rs \<subseteq> {InsertRecord record, SelectRecords}"
proof (cases "hasAttended (tza w) (r_studentId record) (today w) (records (db app))
    \<and> \<not> allowMultipleMarking (settings app)")
  case True
  then show ?thesis
    by (simp add: handleAttendanceMarked_rejected notify_eq)
next
  case False
  then have acc: "\<not> hasAttended (tza w) (r_studentId record) (today w) (records (db app))
     \<or> allowMultipleMarking (settings app)"
    by blast
  show ?thesis
  proof (cases "r_timestamp record")
    case InvalidDate
    then show ?thesis
      by (simp add: handleAttendanceMarked_accepted [OF acc] addAttendanceRecord_invalid notify_eq)
  next
    case (TimeValue t)
    show ?thesis
    proof (cases "reply_error w (length (requests w))")
      case None
      then show ?thesis
        using handleAttendanceMarked_served(1) [OF acc TimeValue] by simp
    next
      case (Some err)
      then show ?thesis
        using handleAttendanceMarked_failed(1) [OF acc TimeValue] by simp
    qed
  qed
qed

lemma recognizeAndMark_eq:
  "recognizeAndMark frame ua cs app w =
     (case fst (handleRecognition (filter s_isActive (students (db app))) frame ua cs w) of
        None \<Rightarrow>
          (fst (snd (handleRecognition (filter s_isActive (students (db app))) frame ua cs w)), app,
           snd (snd (handleRecognition (filter s_isActive (students (db app))) frame ua cs w)))
      | Some p \<Rightarrow>
          (fst (snd (handleRecognition (filter s_isActive (students (db app))) frame ua cs w)),
           handleAttendanceMarked p app
             (snd (snd (handleRecognition (filter s_isActive (students (db app))) frame ua cs w)))))"
  by (simp add: recognizeAndMark_def split: prod.splits option.splits)

lemma recognizeAndMark_requests:
  assumes "InsertRecord r \<in> set (drop (length (requests w))
             (requests (snd (snd (recognizeAndMark frame ua cs app w)))))"
  shows "fst (handleRecognition (filter s_isActive (students (db app))) frame ua cs w) = Some r"
proof (cases "fst (handleRecognition (filter s_isActive (students (db app))) frame ua cs w)")
  case None
  then have "requests (snd (snd (recognizeAndMark frame ua cs app w))) = requests w"
    using handleRecognition_requests [of "filter s_isActive (students (db app))" frame ua cs w]
    by (simp add: recognizeAndMark_eq)
  with assms show ?thesis by simp
next
  case (Some p)
  obtain rs where rs: "requests (snd (handleAttendanceMarked p app
        (snd (snd (handleRecognition (filter s_isActive (students (db app))) frame ua cs w)))))
      = requests w @ rs" "set rs \<subseteq> {InsertRecord p, SelectRecords}"
    using handleAttendanceMarked_requests [of p app
        "snd (snd (handleRecognition (filter s_isActive (students (db app))) frame ua cs w))"]
      handleRecognition_requests [of "filter s_isActive (students (db app))" frame ua cs w]
    by auto
  from Some have "requests (snd (snd (recognizeAndMark frame ua cs app w))) = requests w @ rs"
    using rs(1) by (simp add: recognizeAndMark_eq)
  with assms rs(2) have "r = p" by auto
  with Some show ?thesis by simp
qed

text \<open>
  C10. A record that the camera view proposes carries the confidence of the result of the
  matcher, a multiple of 1/100, and that confidence is at least the threshold of the
  camera view. A result of the matcher whose rounded confidence is below the threshold
  is not proposed. Every insert of an attendance record that one recognition followed
  by the marking sends to the storage carries a confidence that is at least the
  threshold.
\<close>

theorem camera_revalidates_confidence:
  "(fst (handleRecognition studs frame ua cs w) = Some proposed \<longrightarrow>
        cameraThreshold cs \<le> r_confidence proposed
      \<and> (\<exists>k::int. r_confidence proposed = of_int k / 100)
      \<and> (\<exists>img m. frame = Some img
            \<and> fst (simulateFaceRecognition img studs (cameraThreshold cs) w) = Some m
            \<and> r_confidence proposed = m_confidence m))
   \<and> (fst (simulateFaceRecognition img studs (cameraThreshold cs) w) = Some m
        \<and> m_confidence m < cameraThreshold cs \<longrightarrow>
        fst (handleRecognition studs (Some img) ua cs w) = None)
   \<and> (\<forall>r. InsertRecord r \<in> set (drop (length (requests w))
               (requests (snd (snd (recognizeAndMark frame ua cs app w))))) \<longrightarrow>
        cameraThreshold cs \<le> r_confidence r)"
proof -
  have checked: "cameraThreshold cs \<le> r_confidence p
      \<and> (\<exists>k::int. r_confidence p = of_int k / 100)
      \<and> (\<exists>img m. frame = Some img
            \<and> fst (simulateFaceRecognition img studs' (cameraThreshold cs) w) = Some m
            \<and> r_confidence p = m_confidence m)"
    if "fst (handleRecognition studs' frame ua cs w) = Some p" for p studs'
  proof -
    from handleRecognition_Some [OF that] obtain img m where
      m: "frame = Some img" "fst (simulateFaceRecognition img studs' (cameraThreshold cs) w) = Some m"
         "cameraThreshold cs \<le> m_confidence m" "r_confidence p = m_confidence m"
      by auto
    from m(2) have "\<exists>k::int. m_confidence m = of_int k / 100"
    proof -
      have ne: "filter has_photo studs' \<noteq> []"
        using m(2) simulate_empty [of studs' img "cameraThreshold cs" w]
        by (cases "filter has_photo studs' = []") auto
      from m(2) have "fst (matchLoop (cameraThreshold cs) (filter has_photo studs') None (snd (Math_random w))) = Some m"
        by (simp add: simulate_nonempty [OF ne] split: if_splits)
      from matchLoop_Some [OF this] toFixed2_is_hundredth show ?thesis
        by auto
    qed
    with m show ?thesis by auto
  qed
  have low: "fst (handleRecognition studs (Some img) ua cs w) = None"
    if "fst (simulateFaceRecognition img studs (cameraThreshold cs) w) = Some m"
       "m_confidence m < cameraThreshold cs"
    using that
    by (auto simp: handleRecognition_def Let_def split: prod.splits option.splits)
  have "cameraThreshold cs \<le> r_confidence r"
    if "InsertRecord r \<in> set (drop (length (requests w))
               (requests (snd (snd (recognizeAndMark frame ua cs app w)))))" for r
    using recognizeAndMark_requests [OF that] checked by blast
  with checked [of studs proposed] low show ?thesis
    by blast
qed

lemma simulate_world:
  "\<exists>c r. snd (snd (simulateFaceRecognition img studs t w)) = w\<lparr>clock_reads := c, random_draws := r\<rparr>"
proof (cases "filter has_photo studs = []")
  case True
  have "w = w\<lparr>clock_reads := clock_reads w, random_draws := random_draws w\<rparr>"
    by simp
  with True show ?thesis
    by (metis simulate_empty snd_conv)
next
  case False
  then show ?thesis
    by (simp add: simulate_nonempty) blast
qed

lemma handleRecognition_world:
  "\<exists>c r. snd (snd (handleRecognition studs frame ua cs w)) = w\<lparr>clock_reads := c, random_draws := r\<rparr>"
proof -
  have same: "\<exists>c r. w = w\<lparr>clock_reads := c, random_draws := r\<rparr>"
    by (rule exI [of _ "clock_reads w"], rule exI [of _ "random_draws w"]) simp
  have sim: "\<exists>c r. w1 = w\<lparr>clock_reads := c, random_draws := r\<rparr>"
    if "simulateFaceRecognition img studs (cameraThreshold cs) w = (res, d, w1)" for img res d w1
    using simulate_world [of img studs "cameraThreshold cs" w] that by simp
  have sim': "\<exists>c r. w1\<lparr>clock_reads := Suc (clock_reads w1)\<rparr> = w\<lparr>clock_reads := c, random_draws := r\<rparr>"
    if "simulateFaceRecognition img studs (cameraThreshold cs) w = (res, d, w1)" for img res d w1
  proof -
    from sim [OF that] obtain c r where "w1 = w\<lparr>clock_reads := c, random_draws := r\<rparr>"
      by blast
    then have "w1\<lparr>clock_reads := Suc (clock_reads w1)\<rparr> = w\<lparr>clock_reads := Suc c, random_draws := r\<rparr>"
      by simp
    then show ?thesis by blast
  qed
  show ?thesis
    using same sim sim'
    by (auto simp: handleRecognition_def Let_def new_Date_def split: prod.splits option.splits)
qed

lemma handleRecognition_proposes:
  assumes "isActive cs" "\<not> isProcessing cs" "img \<noteq> []"
    and "fst (simulateFaceRecognition img studs (cameraThreshold cs) w) = Some m"
    and "cameraThreshold cs \<le> m_confidence m"
  shows "fst (handleRecognition studs (Some img) ua cs w) =
     Some \<lparr>r_studentId = s_id (m_student m), r_studentName = s_name (m_student m),
            r_timestamp = fst (new_Date (snd (snd (simulateFaceRecognition img studs (cameraThreshold cs) w)))),
            r_confidence = m_confidence m, r_photo = Some img, r_location = Some ''Main Campus'',
            r_deviceInfo = at_index (str_split CHR '' '' ua) 0\<rparr>"
  using assms
  by (auto simp: handleRecognition_def Let_def split: prod.splits option.splits)

theorem camera_revalidates_confidence_witness:
  "fst (handleRecognition [asha, ravi] (Some ''frame'') sample_agent (sample_camera (3 / 4))
          (example_world 1793610000000 [1 / 2, 127 / 175, 251 / 350, 1 / 2]))
     = Some \<lparr>r_studentId = ''id-ravi'', r_studentName = ''Ravi'', r_timestamp = TimeValue 1793610000000,
             r_confidence = 85 / 100, r_photo = Some ''frame'', r_location = Some ''Main Campus'',
             r_deviceInfo = Some ''Mozilla/5.0''\<rparr>
   \<and> cameraThreshold (sample_camera (3 / 4)) \<le> 85 / 100
   \<and> fst (simulateFaceRecognition ''frame'' [asha] (cameraThreshold (sample_camera (754 / 1000)))
          (example_world 1793610000000 [1 / 2, 309 / 700, 1 / 2]))
       = Some \<lparr>m_student = asha, m_confidence = 75 / 100\<rparr>
   \<and> fst (handleRecognition [asha] (Some ''frame'') sample_agent (sample_camera (754 / 1000))
          (example_world 1793610000000 [1 / 2, 309 / 700, 1 / 2])) = None
   \<and> requests (snd (snd (recognizeAndMark (Some ''frame'') sample_agent (sample_camera (3 / 4))
          (sample_app [] False) (example_world 1793610000000 [1 / 2, 127 / 175, 251 / 350, 1 / 2]))))
       = [InsertRecord \<lparr>r_studentId = ''id-ravi'', r_studentName = ''Ravi'',
             r_timestamp = TimeValue 1793610000000,
             r_confidence = 85 / 100, r_photo = Some ''frame'', r_location = Some ''Main Campus'',
             r_deviceInfo = Some ''Mozilla/5.0''\<rparr>, SelectRecords]"
proof -
  let ?w = "example_world 1793610000000 [1 / 2, 127 / 175, 251 / 350, 1 / 2]"
  let ?r = "\<lparr>r_studentId = ''id-ravi'', r_studentName = ''Ravi'', r_timestamp = TimeValue 1793610000000,
             r_confidence = 85 / 100, r_photo = Some ''frame'', r_location = Some ''Main Campus'',
             r_deviceInfo = Some ''Mozilla/5.0''\<rparr>"
  have m: "fst (simulateFaceRecognition ''frame'' [asha, ravi] (3 / 4) ?w)
      = Some \<lparr>m_student = ravi, m_confidence = 85 / 100\<rparr>"
    by (simp add: matcher_eval del: matchLoop.simps(2))
  have clock: "clock (snd (snd (simulateFaceRecognition ''frame'' [asha, ravi] (3 / 4) ?w))) k
      = 1793610000000" for k
    using simulate_world [of "''frame''" "[asha, ravi]" "3 / 4" ?w]
    by (auto simp: example_world_def)
  have p: "fst (handleRecognition [asha, ravi] (Some ''frame'') sample_agent (sample_camera (3 / 4)) ?w)
      = Some ?r"
  proof -
    have "fst (handleRecognition [asha, ravi] (Some ''frame'') sample_agent (sample_camera (3 / 4)) ?w)
      = Some \<lparr>r_studentId = s_id ravi, r_studentName = s_name ravi,
            r_timestamp = fst (new_Date (snd (snd (simulateFaceRecognition ''frame'' [asha, ravi]
                (cameraThreshold (sample_camera (3 / 4))) ?w)))),
            r_confidence = 85 / 100, r_photo = Some ''frame'', r_location = Some ''Main Campus'',
            r_deviceInfo = at_index (str_split CHR '' '' sample_agent) 0\<rparr>"
      using m
      by (subst handleRecognition_proposes [where m = "\<lparr>m_student = ravi, m_confidence = 85 / 100\<rparr>"])
         (simp_all add: sample_camera_def)
    then show ?thesis
      using clock
      by (simp add: sample_camera_def sample_agent_def new_Date_def at_index_def ravi_def)
  qed
  have low: "fst (simulateFaceRecognition ''frame'' [asha] (cameraThreshold (sample_camera (754 / 1000)))
          (example_world 1793610000000 [1 / 2, 309 / 700, 1 / 2]))
       = Some \<lparr>m_student = asha, m_confidence = 75 / 100\<rparr>"
    by (simp add: matcher_eval sample_camera_def del: matchLoop.simps(2))
  have below: "m_confidence \<lparr>m_student = asha, m_confidence = 75 / 100\<rparr>
      < cameraThreshold (sample_camera (754 / 1000))"
    by (simp add: sample_camera_def)
  have studs: "filter s_isActive (students (db (sample_app [] False))) = [asha, ravi]"
    by (simp add: sample_app_def sample_db_def asha_def ravi_def)
  obtain c r where w1: "snd (snd (handleRecognition [asha, ravi] (Some ''frame'') sample_agent
        (sample_camera (3 / 4)) ?w)) = ?w\<lparr>clock_reads := c, random_draws := r\<rparr>"
    using handleRecognition_world by blast
  have "requests (snd (handleAttendanceMarked ?r (sample_app [] False) (?w\<lparr>clock_reads := c, random_draws := r\<rparr>)))
      = requests (?w\<lparr>clock_reads := c, random_draws := r\<rparr>) @ [InsertRecord ?r, SelectRecords]"
    by (rule handleAttendanceMarked_served(1) [of _ _ _ 1793610000000])
       (simp_all add: hasAttended_def sample_app_facts sample_world_facts)
  then have log: "requests (snd (snd (recognizeAndMark (Some ''frame'') sample_agent (sample_camera (3 / 4))
          (sample_app [] False) ?w))) = [InsertRecord ?r, SelectRecords]"
    by (simp add: recognizeAndMark_eq studs p w1 sample_world_facts)
  from camera_revalidates_confidence [where studs = "[asha, ravi]" and frame = "Some ''frame''"
      and ua = sample_agent and cs = "sample_camera (3 / 4)" and w = ?w and proposed = ?r
      and app = "sample_app [] False"]
    camera_revalidates_confidence [where studs = "[asha]" and img = "''frame''"
      and ua = sample_agent and cs = "sample_camera (754 / 1000)"
      and w = "example_world 1793610000000 [1 / 2, 309 / 700, 1 / 2]"
      and m = "\<lparr>m_student = asha, m_confidence = 75 / 100\<rparr>"]
    p low below log
  show ?thesis
    by simp
qed

end
